theory Spec2Isabelle
  imports Complex_Main
begin

section \<open>JavaScript numbers\<close>

text \<open>
  Every quantity of the component is a JavaScript number. The model keeps the
  finite values as exact reals and adds the three special values that the
  source can produce by dividing by zero: \<open>Infinity\<close>, \<open>-Infinity\<close> and
  \<open>NaN\<close>. Rounding and the sign of zero are not modelled: a finite result is
  the exact real result, and a zero divisor counts as \<open>+0\<close>.
\<close>

datatype number = Num real | PosInf | NegInf | NaN

instantiation number :: "{plus, minus, uminus, times, inverse, ord}"
begin

fun uminus_number :: "number \<Rightarrow> number" where
  "uminus_number (Num a) = Num (- a)"
| "uminus_number PosInf = NegInf"
| "uminus_number NegInf = PosInf"
| "uminus_number NaN = NaN"

fun plus_number :: "number \<Rightarrow> number \<Rightarrow> number" where
  "plus_number (Num a) (Num b) = Num (a + b)"
| "plus_number (Num a) PosInf = PosInf"
| "plus_number (Num a) NegInf = NegInf"
| "plus_number PosInf (Num b) = PosInf"
| "plus_number PosInf PosInf = PosInf"
| "plus_number PosInf NegInf = NaN"
| "plus_number NegInf (Num b) = NegInf"
| "plus_number NegInf PosInf = NaN"
| "plus_number NegInf NegInf = NegInf"
| "plus_number NaN y = NaN"
| "plus_number x NaN = NaN"

definition minus_number :: "number \<Rightarrow> number \<Rightarrow> number" where
  "minus_number x y = x + (- y)"

fun times_number :: "number \<Rightarrow> number \<Rightarrow> number" where
  "times_number (Num a) (Num b) = Num (a * b)"
| "times_number (Num a) PosInf = (if a = 0 then NaN else if 0 < a then PosInf else NegInf)"
| "times_number (Num a) NegInf = (if a = 0 then NaN else if 0 < a then NegInf else PosInf)"
| "times_number PosInf (Num b) = (if b = 0 then NaN else if 0 < b then PosInf else NegInf)"
| "times_number NegInf (Num b) = (if b = 0 then NaN else if 0 < b then NegInf else PosInf)"
| "times_number PosInf PosInf = PosInf"
| "times_number PosInf NegInf = NegInf"
| "times_number NegInf PosInf = NegInf"
| "times_number NegInf NegInf = PosInf"
| "times_number NaN y = NaN"
| "times_number x NaN = NaN"

fun divide_number :: "number \<Rightarrow> number \<Rightarrow> number" where
  "divide_number (Num a) (Num b) =
     (if b = 0 then (if a = 0 then NaN else if 0 < a then PosInf else NegInf)
      else Num (a / b))"
| "divide_number (Num a) PosInf = Num 0"
| "divide_number (Num a) NegInf = Num 0"
| "divide_number PosInf (Num b) = (if 0 \<le> b then PosInf else NegInf)"
| "divide_number NegInf (Num b) = (if 0 \<le> b then NegInf else PosInf)"
| "divide_number PosInf PosInf = NaN"
| "divide_number PosInf NegInf = NaN"
| "divide_number NegInf PosInf = NaN"
| "divide_number NegInf NegInf = NaN"
| "divide_number NaN y = NaN"
| "divide_number x NaN = NaN"

definition inverse_number :: "number \<Rightarrow> number" where
  "inverse_number x = divide (Num 1) x"

fun less_number :: "number \<Rightarrow> number \<Rightarrow> bool" where
  "less_number (Num a) (Num b) = (a < b)"
| "less_number (Num a) PosInf = True"
| "less_number NegInf (Num b) = True"
| "less_number NegInf PosInf = True"
| "less_number x y = False"

fun less_eq_number :: "number \<Rightarrow> number \<Rightarrow> bool" where
  "less_eq_number (Num a) (Num b) = (a \<le> b)"
| "less_eq_number (Num a) PosInf = True"
| "less_eq_number NegInf (Num b) = True"
| "less_eq_number NegInf NegInf = True"
| "less_eq_number NegInf PosInf = True"
| "less_eq_number PosInf PosInf = True"
| "less_eq_number x y = False"

instance ..

end

text \<open>\<open>Math.abs\<close>, \<open>Math.max\<close> and \<open>Math.min\<close>: \<open>NaN\<close> in, \<open>NaN\<close> out.\<close>

fun Math_abs :: "number \<Rightarrow> number" where
  "Math_abs (Num a) = Num \<bar>a\<bar>"
| "Math_abs PosInf = PosInf"
| "Math_abs NegInf = PosInf"
| "Math_abs NaN = NaN"

definition Math_max :: "number \<Rightarrow> number \<Rightarrow> number" where
  "Math_max x y = (if x = NaN \<or> y = NaN then NaN else if x < y then y else x)"

definition Math_min :: "number \<Rightarrow> number \<Rightarrow> number" where
  "Math_min x y = (if x = NaN \<or> y = NaN then NaN else if y < x then y else x)"

text \<open>
  \<open>x === y\<close> on numbers (\<open>NaN\<close> equals nothing), the truthiness of a number
  (\<open>0\<close> and \<open>NaN\<close> are falsy), and of a property that may be \<open>undefined\<close>.
  In arithmetic \<open>undefined\<close> converts to \<open>NaN\<close>.
\<close>

definition strict_eq :: "number \<Rightarrow> number \<Rightarrow> bool" where
  "strict_eq x y = (x = y \<and> x \<noteq> NaN)"

definition truthy :: "number \<Rightarrow> bool" where
  "truthy x = (x \<noteq> Num 0 \<and> x \<noteq> NaN)"

fun truthy_opt :: "number option \<Rightarrow> bool" where
  "truthy_opt None = False"
| "truthy_opt (Some x) = truthy x"

fun toNumber :: "number option \<Rightarrow> number" where
  "toNumber None = NaN"
| "toNumber (Some x) = x"

definition finite_number :: "number \<Rightarrow> bool" where
  "finite_number x = (case x of Num a \<Rightarrow> True | _ \<Rightarrow> False)"


section \<open>Rectangles and transforms\<close>

text \<open>
  Modelled from the spec: the component imports \<open>Rect\<close>, \<open>Transform\<close>, \<open>transformedRect\<close>,
  \<open>availableTranslateSpace\<close>, \<open>fitCenterRect\<close>, \<open>alignedRect\<close> and \<open>getTransform\<close>
  from the module \<open>./TransformUtils\<close>, which is not among the source files; the
  definitions of this section follow the specification. The theorems about the component
  hold for these definitions without unfolding them, except where a theorem
  evaluates a concrete state (those states have scale \<open>1\<close> and no aspect ratio,
  where a transform is a plain shift of the rectangle) and where the scale that a
  double tap ends at is computed. The field \<open>top\<close> of a rectangle is named \<open>top_edge\<close>.
\<close>

record Rect =
  left :: number
  top_edge :: number
  right :: number
  bottom :: number

record Transform =
  T_scale :: number
  T_translateX :: number
  T_translateY :: number
  T_pivot :: "(number \<times> number) option"

definition new_Rect :: "number \<Rightarrow> number \<Rightarrow> number \<Rightarrow> number \<Rightarrow> Rect" where
  \<comment> \<open>Modelled from the spec: the constructor of \<open>Rect\<close> (TransformUtils), \<open>{left, top, right, bottom}\<close>.\<close>
  "new_Rect l t r b = \<lparr>left = l, top_edge = t, right = r, bottom = b\<rparr>"

definition new_Transform :: "number \<Rightarrow> number \<Rightarrow> number \<Rightarrow> (number \<times> number) option \<Rightarrow> Transform" where
  \<comment> \<open>Modelled from the spec: the constructor of \<open>Transform\<close> (TransformUtils), with its optional pivot.\<close>
  "new_Transform s tx ty pv = \<lparr>T_scale = s, T_translateX = tx, T_translateY = ty, T_pivot = pv\<rparr>"

definition Rect_width :: "Rect \<Rightarrow> number" where
  \<comment> \<open>Modelled from the spec: \<open>Rect.width()\<close> (TransformUtils), \<open>width = right - left\<close>.\<close>
  "Rect_width r = right r - left r"

definition Rect_height :: "Rect \<Rightarrow> number" where
  \<comment> \<open>Modelled from the spec: \<open>Rect.height()\<close> (TransformUtils), \<open>height = bottom - top\<close>.\<close>
  "Rect_height r = bottom r - top_edge r"

definition Rect_centerX :: "Rect \<Rightarrow> number" where
  \<comment> \<open>Modelled from the spec: \<open>Rect.centerX()\<close> (TransformUtils), \<open>(left + right) / 2\<close>.\<close>
  "Rect_centerX r = (left r + right r) / Num 2"

definition Rect_centerY :: "Rect \<Rightarrow> number" where
  \<comment> \<open>Modelled from the spec: \<open>Rect.centerY()\<close> (TransformUtils), \<open>(top + bottom) / 2\<close>.\<close>
  "Rect_centerY r = (top_edge r + bottom r) / Num 2"

definition Rect_center :: "Rect \<Rightarrow> number \<times> number" where
  \<comment> \<open>Modelled from the spec: \<open>Rect.center()\<close> (TransformUtils), the pair of both centres.\<close>
  "Rect_center r = (Rect_centerX r, Rect_centerY r)"

definition Rect_copy :: "Rect \<Rightarrow> Rect" where
  \<comment> \<open>Modelled from the spec: \<open>Rect.copy()\<close> (TransformUtils); values are immutable here.\<close>
  "Rect_copy r = r"

definition Rect_equals :: "Rect \<Rightarrow> Rect \<Rightarrow> bool" where
  \<comment> \<open>Modelled from the spec: \<open>Rect.equals(other)\<close> (TransformUtils), exact field equality.\<close>
  "Rect_equals r1 r2 =
     (strict_eq (left r1) (left r2) \<and> strict_eq (top_edge r1) (top_edge r2) \<and>
      strict_eq (right r1) (right r2) \<and> strict_eq (bottom r1) (bottom r2))"

definition Rect_offset :: "Rect \<Rightarrow> number \<Rightarrow> number \<Rightarrow> Rect" where
  \<comment> \<open>A shift of all four edges, used by the two modelled functions that move a rectangle.\<close>
  "Rect_offset r dx dy = new_Rect (left r + dx) (top_edge r + dy) (right r + dx) (bottom r + dy)"

definition transformedRect :: "Rect \<Rightarrow> Transform \<Rightarrow> Rect" where
  \<comment> \<open>Modelled from the spec: \<open>transformedRect\<close> (TransformUtils). The translate is applied
      first, then every edge is scaled about the pivot, which defaults to the origin.\<close>
  "transformedRect rect t =
     (let (px, py) = (case T_pivot t of Some pv \<Rightarrow> pv | None \<Rightarrow> (Num 0, Num 0));
          moved = Rect_offset rect (T_translateX t) (T_translateY t)
      in new_Rect (px + T_scale t * (left moved - px)) (py + T_scale t * (top_edge moved - py))
                  (px + T_scale t * (right moved - px)) (py + T_scale t * (bottom moved - py)))"

definition getTransform :: "Rect \<Rightarrow> Rect \<Rightarrow> Transform" where
  \<comment> \<open>Modelled from the spec: \<open>getTransform\<close> (TransformUtils). The scale is the ratio of the
      widths; the translate is solved from the scaled centres.\<close>
  "getTransform fromRect toRect =
     (let scale = Rect_width toRect / Rect_width fromRect
      in new_Transform scale
           (Rect_centerX toRect / scale - Rect_centerX fromRect)
           (Rect_centerY toRect / scale - Rect_centerY fromRect) None)"

definition fitCenterRect :: "number \<Rightarrow> Rect \<Rightarrow> Rect" where
  \<comment> \<open>Modelled from the spec: \<open>fitCenterRect\<close> (TransformUtils), the largest rectangle of the
      given aspect ratio centred in the container.\<close>
  "fitCenterRect aspectRatio containerRect =
     (let w = Rect_width containerRect; h = Rect_height containerRect;
          (w', h') = (if w / h < aspectRatio then (w, w / aspectRatio) else (h * aspectRatio, h));
          cx = Rect_centerX containerRect; cy = Rect_centerY containerRect
      in new_Rect (cx - w' / Num 2) (cy - h' / Num 2) (cx + w' / Num 2) (cy + h' / Num 2))"

definition alignedRect :: "Rect \<Rightarrow> Rect \<Rightarrow> Rect" where
  \<comment> \<open>Modelled from the spec: \<open>alignedRect\<close> (TransformUtils). An axis on which the rectangle
      is smaller than the viewport is centred; a larger one is left as it is.\<close>
  "alignedRect rect viewPort =
     (let dx = (if Rect_width rect < Rect_width viewPort
                then Rect_centerX viewPort - Rect_centerX rect else Num 0);
          dy = (if Rect_height rect < Rect_height viewPort
                then Rect_centerY viewPort - Rect_centerY rect else Num 0)
      in Rect_offset rect dx dy)"

definition availableTranslateSpace :: "Rect \<Rightarrow> Rect \<Rightarrow> Rect" where
  \<comment> \<open>Modelled from the spec: \<open>availableTranslateSpace\<close> (TransformUtils). The distance each
      edge of the content may still move before it reaches the viewport's edge, negative
      once the edge is past it. The result \<open>{left, top, right, bottom}\<close> is kept in a \<open>Rect\<close>.\<close>
  "availableTranslateSpace contentRect viewPort =
     new_Rect (left viewPort - left contentRect) (top_edge viewPort - top_edge contentRect)
              (right contentRect - right viewPort) (bottom contentRect - bottom viewPort)"


section \<open>The component: state, properties and gestures\<close>

text \<open>
  \<open>this.state\<close> of \<open>ViewTransformer\<close>, together with the instance fields that
  change: whether \<open>this._svgRect\<close> holds a rectangle (it is set once, in the
  constructor), what the \<open>Animated.Value\<close> in \<open>state.animator\<close> currently carries
  (the listener registered by \<open>animate\<close>, a closure over the rectangle it starts
  from and its target, and the duration of the timing animation in flight), and the
  fling last requested from the scroller. A \<open>setState\<close> takes effect at once and its
  callback runs right after it: the host delivers events one at a time.
\<close>

record Fling =
  fling_startX :: number
  fling_startY :: number
  fling_vx :: number
  fling_vy :: number
  fling_minX :: number
  fling_maxX :: number
  fling_minY :: number
  fling_maxY :: number

record State =
  scale :: number
  translateX :: number
  translateY :: number
  svgScale :: number
  svgTranslateX :: number
  svgTranslateY :: number
  svgDrawingScale :: number
  width :: number
  height :: number
  pageX :: number
  pageY :: number
  isAnimating :: bool
  responderGranted :: bool
  svgRect_holder :: bool
  animator_listener :: "(Rect \<times> Rect) option"
  animator_timing :: "number option"
  scroller_fling :: "Fling option"

record GestureState =
  moveX :: number
  moveY :: number
  previousMoveX :: number
  previousMoveY :: number
  pinch :: "number option"
  previousPinch :: "number option"
  gesture_vx :: number
  gesture_vy :: number
  x0 :: number
  y0 :: number
  gesture_dx :: number
  gesture_dy :: number
  doubleTapUp :: bool

text \<open>
  The properties. An interception hook is a function of what it is handed (the
  gesture, and the state through the converters) to the truthiness of its result.
\<close>

record Props =
  enableTransform :: bool
  enableScale :: bool
  enableTranslate :: bool
  maxOverScrollDistance :: number
  maxScale :: number
  initialScale :: number
  contentAspectRatio :: "number option"
  enableResistance :: bool
  enableLimits :: bool
  svgWidth :: "number option"
  svgHeight :: "number option"
  onTransformGestureMove :: "(State \<Rightarrow> GestureState \<Rightarrow> bool) option"
  onTransformGestureReleased :: "(State \<Rightarrow> GestureState \<Rightarrow> bool) option"

definition defaultProps :: Props where
  "defaultProps =
     \<lparr>enableTransform = True, enableScale = True, enableTranslate = True,
      maxOverScrollDistance = Num 0, maxScale = Num 1, initialScale = Num 10,
      contentAspectRatio = None, enableResistance = False, enableLimits = False,
      svgWidth = None, svgHeight = None,
      onTransformGestureMove = None, onTransformGestureReleased = None\<rparr>"

definition constructor :: "Props \<Rightarrow> State" where
  "constructor props =
     \<lparr>scale = initialScale props,
      translateX = Num 375 / Num 2 / Num 5,
      translateY = Num 0,
      svgScale = Num 1,
      svgTranslateX = Num 0,
      svgTranslateY = Num 0,
      svgDrawingScale = Num 0,
      width = Num 0,
      height = Num 0,
      pageX = Num 0,
      pageY = Num 0,
      isAnimating = False,
      responderGranted = False,
      svgRect_holder = (truthy_opt (svgWidth props) \<and> truthy_opt (svgHeight props)),
      animator_listener = None,
      animator_timing = None,
      scroller_fling = None\<rparr>"

subsection \<open>Rectangles of the current state\<close>

definition viewPortRect :: "State \<Rightarrow> Rect" where
  "viewPortRect st = new_Rect (Num 0) (Num 0) (width st) (height st)"

definition svgRect :: "Props \<Rightarrow> State \<Rightarrow> Rect option" where
  "svgRect props st =
     (if \<not> svgRect_holder st then None
      else Some (new_Rect (Num 0) (Num 0) (toNumber (svgWidth props)) (toNumber (svgHeight props))))"

definition currentTransform :: "State \<Rightarrow> Transform" where
  "currentTransform st = new_Transform (scale st) (translateX st) (translateY st) None"

definition currentSvgTransform :: "State \<Rightarrow> Transform" where
  "currentSvgTransform st = new_Transform (svgScale st) (svgTranslateX st) (svgTranslateY st) None"

definition hasAspectRatio :: "Props \<Rightarrow> bool" where
  \<comment> \<open>\<open>this.props.contentAspectRatio && this.props.contentAspectRatio > 0\<close>\<close>
  "hasAspectRatio props =
     (truthy_opt (contentAspectRatio props) \<and> Num 0 < toNumber (contentAspectRatio props))"

definition contentRect :: "Props \<Rightarrow> State \<Rightarrow> Rect" where
  "contentRect props st =
     (let rect = Rect_copy (viewPortRect st)
      in if hasAspectRatio props
         then fitCenterRect (toNumber (contentAspectRatio props)) rect
         else rect)"

definition transformedContentRect :: "Props \<Rightarrow> State \<Rightarrow> Rect" where
  "transformedContentRect props st =
     (let rect = transformedRect (viewPortRect st) (currentTransform st)
      in if hasAspectRatio props
         then fitCenterRect (toNumber (contentAspectRatio props)) rect
         else rect)"

definition clipRectCoordinates :: "Props \<Rightarrow> State \<Rightarrow> Rect" where
  "clipRectCoordinates props st =
     (let content = contentRect props st;
          transform = currentTransform st;
          transformed = transformedContentRect props st;
          viewPort = viewPortRect st;
          centerX = Num 0.5 - T_translateX transform / Rect_width content;
          centerY = Num 0.5 - T_translateY transform / Rect_height content;
          width = Rect_width viewPort / Rect_width transformed;
          height = Rect_height viewPort / Rect_height transformed
      in new_Rect
           (Math_max (Num 0) (centerX - width / Num 2))
           (Math_max (Num 0) (centerY - height / Num 2))
           (Math_min (Num 1) (centerX + width / Num 2))
           (Math_min (Num 1) (centerY + height / Num 2)))"

definition screenCenterCoordinate :: "Props \<Rightarrow> State \<Rightarrow> number \<times> number" where
  "screenCenterCoordinate props st = Rect_center (clipRectCoordinates props st)"

definition clipRect :: "Props \<Rightarrow> State \<Rightarrow> Rect" where
  "clipRect props st =
     (let clipRectCoordinates = clipRectCoordinates props st
      in new_Rect
           (left clipRectCoordinates * toNumber (svgWidth props))
           (top_edge clipRectCoordinates * toNumber (svgHeight props))
           (right clipRectCoordinates * toNumber (svgWidth props))
           (bottom clipRectCoordinates * toNumber (svgHeight props)))"

subsection \<open>Conversions between coordinates, drawing points and screen points\<close>

definition coordinateToDrawingPoint :: "Props \<Rightarrow> State \<Rightarrow> number \<times> number \<Rightarrow> number \<times> number" where
  "coordinateToDrawingPoint props st coord =
     (if \<not> svgRect_holder st then coord
      else (fst coord * toNumber (svgWidth props), snd coord * toNumber (svgHeight props)))"

definition drawingPointToCoordinate :: "Props \<Rightarrow> State \<Rightarrow> number \<times> number \<Rightarrow> number \<times> number" where
  "drawingPointToCoordinate props st drawingPoint =
     (if \<not> svgRect_holder st then drawingPoint
      else (fst drawingPoint / toNumber (svgWidth props), snd drawingPoint / toNumber (svgHeight props)))"

definition drawingPointToScreenPoint :: "Props \<Rightarrow> State \<Rightarrow> number \<times> number \<Rightarrow> number \<times> number" where
  "drawingPointToScreenPoint props st drawingPoint =
     (let tr = transformedContentRect props st
      in (left tr + fst drawingPoint * svgDrawingScale st,
          top_edge tr + snd drawingPoint * svgDrawingScale st))"

definition screenPointToDrawingPoint :: "Props \<Rightarrow> State \<Rightarrow> number \<times> number \<Rightarrow> number \<times> number" where
  "screenPointToDrawingPoint props st screenPoint =
     (let tr = transformedContentRect props st
      in ((fst screenPoint - left tr) / svgDrawingScale st,
          (snd screenPoint - top_edge tr) / svgDrawingScale st))"

definition coordinateToScreenPoint :: "Props \<Rightarrow> State \<Rightarrow> number \<times> number \<Rightarrow> number \<times> number" where
  "coordinateToScreenPoint props st coordinate =
     drawingPointToScreenPoint props st (coordinateToDrawingPoint props st coordinate)"

definition screenPointToCoordinate_first :: "Props \<Rightarrow> State \<Rightarrow> number \<times> number \<Rightarrow> number \<times> number" where
  \<comment> \<open>The first class property named \<open>screenPointToCoordinate\<close>; the second one, below,
      is assigned after it and replaces it.\<close>
  "screenPointToCoordinate_first props st screenPoint =
     drawingPointToCoordinate props st (screenPointToDrawingPoint props st screenPoint)"

definition drawingScalarToScreenScalar :: "Props \<Rightarrow> State \<Rightarrow> number \<Rightarrow> number" where
  "drawingScalarToScreenScalar props st drawingScalar =
     (let tr = transformedContentRect props st
      in drawingScalar * Math_max (Rect_width tr) (Rect_height tr))"

definition screenScalarToDrawingScalar :: "State \<Rightarrow> number \<Rightarrow> number" where
  "screenScalarToDrawingScalar st screenScalar = screenScalar / svgDrawingScale st"

definition screenPointToCoordinate :: "Props \<Rightarrow> State \<Rightarrow> number \<times> number \<Rightarrow> number \<times> number" where
  "screenPointToCoordinate props st screenPoint =
     (let tr = transformedContentRect props st
      in ((fst screenPoint - left tr) / Rect_width tr,
          (snd screenPoint - top_edge tr) / Rect_height tr))"


subsection \<open>Updating the transform\<close>

text \<open>
  The argument of \<open>updateTransform\<close> is handed to \<open>setState\<close>: an object with any of
  \<open>scale\<close>, \<open>translateX\<close> and \<open>translateY\<close>. A field that is absent leaves the state's
  field as it is.
\<close>

record TransformUpdate =
  new_scale :: "number option"
  new_translateX :: "number option"
  new_translateY :: "number option"

definition setState_transform :: "State \<Rightarrow> TransformUpdate \<Rightarrow> State" where
  "setState_transform st transform =
     st\<lparr>scale := (case new_scale transform of Some v \<Rightarrow> v | None \<Rightarrow> scale st),
        translateX := (case new_translateX transform of Some v \<Rightarrow> v | None \<Rightarrow> translateX st),
        translateY := (case new_translateY transform of Some v \<Rightarrow> v | None \<Rightarrow> translateY st)\<rparr>"

definition fromTransform :: "Transform \<Rightarrow> TransformUpdate" where
  \<comment> \<open>A \<open>Transform\<close> object handed to \<open>setState\<close> sets all three fields.\<close>
  "fromTransform t =
     \<lparr>new_scale = Some (T_scale t), new_translateX = Some (T_translateX t),
      new_translateY = Some (T_translateY t)\<rparr>"

definition updateSvgTransform :: "Props \<Rightarrow> State \<Rightarrow> State" where
  "updateSvgTransform props st =
     (case svgRect props st of
        None \<Rightarrow> st
      | Some svg \<Rightarrow>
          (let newSvgTransform = getTransform svg (contentRect props st)
           in st\<lparr>svgScale := T_scale newSvgTransform,
                 svgTranslateX := T_translateX newSvgTransform,
                 svgTranslateY := T_translateY newSvgTransform,
                 svgDrawingScale :=
                   Rect_width (transformedContentRect props st) / toNumber (svgWidth props)\<rparr>))"

definition updateTransform :: "Props \<Rightarrow> State \<Rightarrow> TransformUpdate \<Rightarrow> State" where
  "updateTransform props st transform = updateSvgTransform props (setState_transform st transform)"

definition forceUpdateTransform :: "Props \<Rightarrow> State \<Rightarrow> TransformUpdate \<Rightarrow> State" where
  "forceUpdateTransform props st transform = updateTransform props st transform"

definition getAvailableTranslateSpace :: "Props \<Rightarrow> State \<Rightarrow> Rect" where
  "getAvailableTranslateSpace props st =
     availableTranslateSpace (transformedContentRect props st) (viewPortRect st)"

definition componentWillReceiveProps :: "Props \<Rightarrow> Props \<Rightarrow> State \<Rightarrow> State" where
  \<comment> \<open>The callback of the \<open>setState\<close> runs once the new properties are in place.\<close>
  "componentWillReceiveProps props nextProps st =
     (if \<not> strict_eq (initialScale props) (initialScale nextProps)
      then updateTransform nextProps st
             \<lparr>new_scale = Some (initialScale nextProps), new_translateX = None, new_translateY = None\<rparr>
      else st)"

subsection \<open>Layout\<close>

definition onLayout :: "Props \<Rightarrow> State \<Rightarrow> number \<Rightarrow> number \<Rightarrow> State" where
  \<comment> \<open>\<open>measureLayout\<close> answers later, through \<open>measured\<close>.\<close>
  "onLayout props st w h =
     (if \<not> strict_eq w (width st) \<or> \<not> strict_eq h (height st)
      then updateSvgTransform props (st\<lparr>width := w, height := h\<rparr>)
      else st)"

definition measured :: "State \<Rightarrow> number option \<Rightarrow> number option \<Rightarrow> State" where
  \<comment> \<open>The callback that \<open>measureLayout\<close> hands to \<open>UIManager.measure\<close>.\<close>
  "measured st px py =
     (case (px, py) of
        (Some x, Some y) \<Rightarrow>
          (if \<not> strict_eq (pageX st) x \<or> \<not> strict_eq (pageY st) y
           then st\<lparr>pageX := x, pageY := y\<rparr> else st)
      | _ \<Rightarrow> st)"

subsection \<open>Limits and resistance\<close>

definition applyLimits :: "Props \<Rightarrow> State \<Rightarrow> number \<Rightarrow> number \<Rightarrow> number \<times> number" where
  "applyLimits props st dx dy =
     (let availablePanDistance =
            availableTranslateSpace (transformedContentRect props st) (viewPortRect st);
          dx =
            (if Rect_width (transformedContentRect props st) < Rect_width (viewPortRect st) then
               (if dx < Num 0 \<and> left (transformedContentRect props st) + dx < left (viewPortRect st)
                then left availablePanDistance
                else if dx > Num 0 \<and> right (transformedContentRect props st) + dx > right (viewPortRect st)
                then - right availablePanDistance
                else dx)
             else
               (if dx < Num 0 \<and> right (transformedContentRect props st) + dx < right (viewPortRect st)
                then - right availablePanDistance
                else if dx > Num 0 \<and> left (transformedContentRect props st) + dx > left (viewPortRect st)
                then left availablePanDistance
                else dx));
          dy =
            (if Rect_height (transformedContentRect props st) < Rect_height (viewPortRect st) then
               (if dy > Num 0 \<and> bottom (transformedContentRect props st) + dy > bottom (viewPortRect st)
                then - bottom availablePanDistance
                else if dy < Num 0 \<and> top_edge (transformedContentRect props st) + dy < top_edge (viewPortRect st)
                then top_edge availablePanDistance
                else dy)
             else
               (if dy > Num 0 \<and> top_edge (transformedContentRect props st) + dy > top_edge (viewPortRect st)
                then top_edge availablePanDistance
                else if dy < Num 0 \<and> bottom (transformedContentRect props st) + dy < bottom (viewPortRect st)
                then - bottom availablePanDistance
                else dy))
      in (dx, dy))"

definition applyResistance :: "Props \<Rightarrow> State \<Rightarrow> number \<Rightarrow> number \<Rightarrow> number \<times> number" where
  "applyResistance props st dx dy =
     (let availablePanDistance =
            availableTranslateSpace (transformedContentRect props st) (viewPortRect st);
          dx = (if (dx > Num 0 \<and> left availablePanDistance < Num 0) \<or>
                   (dx < Num 0 \<and> right availablePanDistance < Num 0)
                then dx / Num 3 else dx);
          dy = (if (dy > Num 0 \<and> top_edge availablePanDistance < Num 0) \<or>
                   (dy < Num 0 \<and> bottom availablePanDistance < Num 0)
                then dy / Num 3 else dy)
      in (dx, dy))"

subsection \<open>Animation\<close>

definition cancelAnimation :: "State \<Rightarrow> State" where
  \<comment> \<open>\<open>this.state.animator.stopAnimation()\<close>: the timing animation in flight, if any, stops.\<close>
  "cancelAnimation st = st\<lparr>animator_timing := None\<rparr>"

definition animate :: "Props \<Rightarrow> State \<Rightarrow> Rect \<Rightarrow> number option \<Rightarrow> State" where
  "animate props st targetRect durationInMillis =
     (let duration = (if truthy_opt durationInMillis then toNumber durationInMillis else Num 200);
          fromRect = transformedContentRect props st
      in if Rect_equals fromRect targetRect then st
         else st\<lparr>animator_listener := Some (fromRect, targetRect),
                 animator_timing := Some duration\<rparr>)"

definition animator_tick :: "Props \<Rightarrow> State \<Rightarrow> number \<Rightarrow> State" where
  \<comment> \<open>The listener that \<open>animate\<close> adds to the animator, called with the progress.\<close>
  "animator_tick props st progress =
     (case animator_listener st of
        None \<Rightarrow> st
      | Some (fromRect, targetRect) \<Rightarrow>
          (let l = left fromRect + (left targetRect - left fromRect) * progress;
               r = right fromRect + (right targetRect - right fromRect) * progress;
               t = top_edge fromRect + (top_edge targetRect - top_edge fromRect) * progress;
               b = bottom fromRect + (bottom targetRect - bottom fromRect) * progress;
               transform = getTransform (contentRect props st) (new_Rect l t r b)
           in updateTransform props st (fromTransform transform)))"

definition animator_end :: "State \<Rightarrow> State" where
  \<comment> \<open>The callback handed to \<open>start\<close> of the timing animation.\<close>
  "animator_end st = st\<lparr>isAnimating := False, animator_timing := None\<rparr>"

definition animateBounce :: "Props \<Rightarrow> State \<Rightarrow> State" where
  "animateBounce props st =
     (let curScale = scale st;
          minScale = Num 1;
          maxScale = maxScale props;
          scaleBy = (if curScale > maxScale then maxScale / curScale
                     else if curScale < minScale then minScale / curScale
                     else Num 1);
          rect = transformedRect (transformedContentRect props st)
                   (new_Transform scaleBy (Num 0) (Num 0)
                      (Some (Rect_centerX (viewPortRect st), Rect_centerY (viewPortRect st))));
          rect = alignedRect rect (viewPortRect st)
      in animate props st rect None)"


subsection \<open>Gestures\<close>

definition onResponderGrant :: "State \<Rightarrow> State" where
  "onResponderGrant st = st\<lparr>responderGranted := True\<rparr>"

definition hookHandled :: "(State \<Rightarrow> GestureState \<Rightarrow> bool) option \<Rightarrow> State \<Rightarrow> GestureState \<Rightarrow> bool" where
  \<comment> \<open>\<open>this.props.hook && this.props.hook(...)\<close>: no hook is not handled.\<close>
  "hookHandled hook st gestureState =
     (case hook of None \<Rightarrow> False | Some h \<Rightarrow> h st gestureState)"

definition limitedDelta :: "Props \<Rightarrow> State \<Rightarrow> number \<Rightarrow> number \<Rightarrow> number \<times> number" where
  \<comment> \<open>\<open>onResponderMove\<close>: the \<open>if (enableLimits) ... else if (enableResistance) ...\<close> that
      follows the computation of the raw delta.\<close>
  "limitedDelta props st dx dy =
     (if enableLimits props then applyLimits props st dx dy
      else if enableResistance props then applyResistance props st dx dy
      else (dx, dy))"

definition axisLock :: "number \<Rightarrow> number \<Rightarrow> number \<times> number" where
  \<comment> \<open>\<open>onResponderMove\<close>, the branch without a pinch: the lock onto one axis.\<close>
  "axisLock dx dy =
     (if Math_abs dx > Num 2 * Math_abs dy then (dx, Num 0)
      else if Math_abs dy > Num 2 * Math_abs dx then (Num 0, dy)
      else (dx, dy))"

definition pinching :: "Props \<Rightarrow> GestureState \<Rightarrow> bool" where
  \<comment> \<open>\<open>gestureState.previousPinch && gestureState.pinch && this.props.enableScale\<close>\<close>
  "pinching props gestureState =
     (truthy_opt (previousPinch gestureState) \<and> truthy_opt (pinch gestureState) \<and> enableScale props)"

definition onResponderMove :: "Props \<Rightarrow> State \<Rightarrow> GestureState \<Rightarrow> State" where
  "onResponderMove props st0 gestureState =
     (let st = cancelAnimation st0;
          dx = moveX gestureState - previousMoveX gestureState;
          dy = moveY gestureState - previousMoveY gestureState;
          (dx, dy) = limitedDelta props st dx dy;
          handled = hookHandled (onTransformGestureMove props) st gestureState
      in if handled then st
         else
           (let (dx, dy) = (if \<not> enableTranslate props then (Num 0, Num 0) else (dx, dy))
            in if pinching props gestureState then
                 (let scaleBy = toNumber (pinch gestureState) / toNumber (previousPinch gestureState);
                      pivotX = moveX gestureState - pageX st;
                      pivotY = moveY gestureState - pageY st;
                      rect = transformedRect
                               (transformedRect (contentRect props st) (currentTransform st))
                               (new_Transform scaleBy dx dy (Some (pivotX, pivotY)));
                      transform = getTransform (contentRect props st) rect
                  in updateTransform props st (fromTransform transform))
               else
                 (let (dx, dy) = axisLock dx dy
                  in updateTransform props st
                       \<lparr>new_scale = None,
                        new_translateX = Some (translateX st + dx / scale st),
                        new_translateY = Some (translateY st + dy / scale st)\<rparr>)))"

definition onResponderMove_old :: "Props \<Rightarrow> State \<Rightarrow> GestureState \<Rightarrow> State" where
  \<comment> \<open>\<open>onResponderMove\<close> as the copy in \<open>src/library/transform/ViewTransformer.js\<close> has it:
      the hook is asked before the delta is computed, and the pinch branch declares a
      \<open>dx\<close> and a \<open>dy\<close> of its own.\<close>
  "onResponderMove_old props st0 gestureState =
     (let st = cancelAnimation st0;
          handled = hookHandled (onTransformGestureMove props) st gestureState
      in if handled then st
         else
           (let dx = moveX gestureState - previousMoveX gestureState;
                dy = moveY gestureState - previousMoveY gestureState;
                (dx, dy) = limitedDelta props st dx dy;
                (dx, dy) = (if \<not> enableTranslate props then (Num 0, Num 0) else (dx, dy))
            in if pinching props gestureState then
                 (let dx = moveX gestureState - previousMoveX gestureState;
                      dy = moveY gestureState - previousMoveY gestureState;
                      scaleBy = toNumber (pinch gestureState) / toNumber (previousPinch gestureState);
                      pivotX = moveX gestureState - pageX st;
                      pivotY = moveY gestureState - pageY st;
                      rect = transformedRect
                               (transformedRect (contentRect props st) (currentTransform st))
                               (new_Transform scaleBy dx dy (Some (pivotX, pivotY)));
                      transform = getTransform (contentRect props st) rect
                  in updateTransform props st (fromTransform transform))
               else
                 (let (dx, dy) = axisLock dx dy
                  in updateTransform props st
                       \<lparr>new_scale = None,
                        new_translateX = Some (translateX st + dx / scale st),
                        new_translateY = Some (translateY st + dy / scale st)\<rparr>)))"

definition performFling :: "Props \<Rightarrow> State \<Rightarrow> number \<Rightarrow> number \<Rightarrow> State" where
  "performFling props st vx vy =
     (let startX = Num 0;
          startY = Num 0;
          availablePanDistance =
            availableTranslateSpace (transformedContentRect props st) (viewPortRect st);
          (minX, maxX) =
            (if vx > Num 0 then
               (Num 0,
                if left availablePanDistance > Num 0
                then left availablePanDistance + maxOverScrollDistance props else Num 0)
             else
               (if right availablePanDistance > Num 0
                then - right availablePanDistance - maxOverScrollDistance props else Num 0,
                Num 0));
          (minY, maxY) =
            (if vy > Num 0 then
               (Num 0,
                if top_edge availablePanDistance > Num 0
                then top_edge availablePanDistance + maxOverScrollDistance props else Num 0)
             else
               (if bottom availablePanDistance > Num 0
                then - bottom availablePanDistance - maxOverScrollDistance props else Num 0,
                Num 0));
          vx = vx * Num 1000;
          vy = vy * Num 1000;
          (vx, vy) =
            (if Math_abs vx > Num 2 * Math_abs vy then (vx, Num 0)
             else if Math_abs vy > Num 2 * Math_abs vx then (Num 0, vy)
             else (vx, vy))
      in st\<lparr>scroller_fling :=
              Some \<lparr>fling_startX = startX, fling_startY = startY, fling_vx = vx, fling_vy = vy,
                    fling_minX = minX, fling_maxX = maxX, fling_minY = minY, fling_maxY = maxY\<rparr>\<rparr>)"

definition doubleTapScaleBy :: "Props \<Rightarrow> State \<Rightarrow> number" where
  \<comment> \<open>\<open>performDoubleTapUp\<close>: the value of its local \<open>scaleBy\<close>.\<close>
  "doubleTapScaleBy props st =
     (let curScale = scale st
      in if curScale > (Num 1 + maxScale props) / Num 2 then Num 1 / curScale
         else maxScale props / curScale)"

definition doubleTapTarget :: "Props \<Rightarrow> State \<Rightarrow> number \<Rightarrow> number \<Rightarrow> Rect" where
  \<comment> \<open>\<open>performDoubleTapUp\<close>: the rectangle it hands to \<open>animate\<close>.\<close>
  "doubleTapTarget props st pivotX pivotY =
     (let scaleBy = doubleTapScaleBy props st;
          rect = transformedRect (transformedContentRect props st)
                   (new_Transform scaleBy (Num 0) (Num 0) (Some (pivotX, pivotY)));
          rect = transformedRect rect
                   (new_Transform (Num 1)
                      (Rect_centerX (viewPortRect st) - pivotX)
                      (Rect_centerY (viewPortRect st) - pivotY) None);
          rect = alignedRect rect (viewPortRect st)
      in rect)"

definition performDoubleTapUp :: "Props \<Rightarrow> State \<Rightarrow> number \<Rightarrow> number \<Rightarrow> State" where
  "performDoubleTapUp props st0 pivotX pivotY =
     (let st = st0\<lparr>isAnimating := True\<rparr>
      in animate props st (doubleTapTarget props st pivotX pivotY) None)"

definition centerAtPoint :: "Props \<Rightarrow> State \<Rightarrow> number \<Rightarrow> number \<Rightarrow> number \<Rightarrow> number option \<Rightarrow> State" where
  "centerAtPoint props st0 x y scale' animationDuration =
     (let animationDuration = (if truthy_opt animationDuration then toNumber animationDuration else Num 0);
          st = st0\<lparr>isAnimating := True\<rparr>;
          curScale = scale st;
          scaleBy = scale' / curScale;
          screenPoint = coordinateToScreenPoint props st (x, y);
          x = fst screenPoint - left (viewPortRect st);
          y = snd screenPoint - top_edge (viewPortRect st);
          targetRect = transformedRect (transformedContentRect props st)
                         (new_Transform scaleBy (Num 0) (Num 0) (Some (y, x)));
          targetRect = transformedRect targetRect
                         (new_Transform (Num 1)
                            (Rect_centerX (viewPortRect st) - x)
                            (Rect_centerY (viewPortRect st) - y) None)
      in animate props st targetRect (Some animationDuration))"

definition onResponderRelease :: "Props \<Rightarrow> State \<Rightarrow> GestureState \<Rightarrow> State" where
  "onResponderRelease props st gestureState =
     (let handled = hookHandled (onTransformGestureReleased props) st gestureState
      in if handled then st
         else if doubleTapUp gestureState then
           (if \<not> enableScale props then animateBounce props st
            else
              (let (pivotX, pivotY) =
                     (if truthy (gesture_dx gestureState) \<or> truthy (gesture_dy gestureState)
                      then (moveX gestureState - pageX st, moveY gestureState - pageY st)
                      else (x0 gestureState - pageX st, y0 gestureState - pageY st))
               in performDoubleTapUp props st pivotX pivotY))
         else if enableTranslate props then
           performFling props st (gesture_vx gestureState) (gesture_vy gestureState)
         else animateBounce props st)"

definition scroller_tick :: "Props \<Rightarrow> State \<Rightarrow> number \<Rightarrow> number \<Rightarrow> bool \<Rightarrow> State" where
  \<comment> \<open>The callback handed to the scroller in the constructor; \<open>finished\<close> is what
      \<open>scroller.isFinished()\<close> answers.\<close>
  "scroller_tick props st dx dy finished =
     (if strict_eq dx (Num 0) \<and> strict_eq dy (Num 0) \<and> finished then animateBounce props st
      else updateTransform props st
             \<lparr>new_scale = None,
              new_translateX = Some (translateX st + dx / scale st),
              new_translateY = Some (translateY st + dy / scale st)\<rparr>)"


subsection \<open>Events\<close>

text \<open>
  Everything that can happen to a mounted component: the host's layout and
  measurement, the three gesture callbacks, the ticks and the end of the timing
  animation, the ticks of the scroller, new properties, and the calls of the
  public functions. A run starts from the constructor's state.
\<close>

datatype event =
    Layout number number
  | Measured "number option" "number option"
  | ResponderGrant
  | ResponderMove GestureState
  | ResponderRelease GestureState
  | AnimatorTick number
  | AnimatorEnd
  | ScrollerTick number number bool
  | ReceiveProps Props
  | UpdateTransform TransformUpdate
  | ForceUpdateTransform TransformUpdate
  | CenterAtPoint number number number "number option"
  | CancelAnimation

fun handle :: "Props \<times> State \<Rightarrow> event \<Rightarrow> Props \<times> State" where
  "handle (props, st) (Layout w h) = (props, onLayout props st w h)"
| "handle (props, st) (Measured px py) = (props, measured st px py)"
| "handle (props, st) ResponderGrant = (props, onResponderGrant st)"
| "handle (props, st) (ResponderMove g) = (props, onResponderMove props st g)"
| "handle (props, st) (ResponderRelease g) = (props, onResponderRelease props st g)"
| "handle (props, st) (AnimatorTick progress) = (props, animator_tick props st progress)"
| "handle (props, st) AnimatorEnd = (props, animator_end st)"
| "handle (props, st) (ScrollerTick dx dy finished) = (props, scroller_tick props st dx dy finished)"
| "handle (props, st) (ReceiveProps nextProps) = (nextProps, componentWillReceiveProps props nextProps st)"
| "handle (props, st) (UpdateTransform t) = (props, updateTransform props st t)"
| "handle (props, st) (ForceUpdateTransform t) = (props, forceUpdateTransform props st t)"
| "handle (props, st) (CenterAtPoint x y s d) = (props, centerAtPoint props st x y s d)"
| "handle (props, st) CancelAnimation = (props, cancelAnimation st)"

definition run :: "Props \<Rightarrow> event list \<Rightarrow> Props \<times> State" where
  "run props events = foldl handle (props, constructor props) events"

section \<open>Concrete configurations\<close>

text \<open>
  A viewport of 300 by 400 at the identity transform, reached by a layout and one
  call of \<open>updateTransform\<close>, with and without an overlay of 2000 by 3000.
\<close>

definition identityUpdate :: TransformUpdate where
  "identityUpdate =
     \<lparr>new_scale = Some (Num 1), new_translateX = Some (Num 0), new_translateY = Some (Num 0)\<rparr>"

definition laidOut :: "Props \<Rightarrow> State" where
  "laidOut props = snd (run props [Layout (Num 300) (Num 400), UpdateTransform identityUpdate])"

definition overlayProps :: Props where
  "overlayProps =
     defaultProps\<lparr>maxScale := Num 3, svgWidth := Some (Num 2000), svgHeight := Some (Num 3000)\<rparr>"

definition shiftUpdate :: TransformUpdate where
  "shiftUpdate =
     \<lparr>new_scale = None, new_translateX = Some (Num 20), new_translateY = Some (Num (- 10))\<rparr>"

text \<open>The same viewport under the overlay, zoomed in to scale 3.\<close>

definition zoomedIn :: State where
  "zoomedIn =
     snd (run overlayProps
       [Layout (Num 300) (Num 400),
        UpdateTransform \<lparr>new_scale = Some (Num 3), new_translateX = Some (Num 0),
                         new_translateY = Some (Num 0)\<rparr>])"

text \<open>
  Properties with both hooks: the move hook handles every move, the release hook
  handles every release that is not a double tap. A double tap in the middle of the
  viewport starts the zoom animation; a drag by \<open>(3, 1)\<close> follows.
\<close>

definition hookedProps :: Props where
  "hookedProps =
     defaultProps\<lparr>maxScale := Num 3,
       onTransformGestureMove := Some (\<lambda>st gestureState. True),
       onTransformGestureReleased := Some (\<lambda>st gestureState. doubleTapUp gestureState = False)\<rparr>"

definition tap :: GestureState where
  "tap =
     \<lparr>moveX = Num 150, moveY = Num 200, previousMoveX = Num 150, previousMoveY = Num 200,
      pinch = None, previousPinch = None, gesture_vx = Num 0, gesture_vy = Num 0,
      x0 = Num 150, y0 = Num 200, gesture_dx = Num 0, gesture_dy = Num 0, doubleTapUp = True\<rparr>"

definition drag :: GestureState where
  "drag =
     \<lparr>moveX = Num 13, moveY = Num 11, previousMoveX = Num 10, previousMoveY = Num 10,
      pinch = None, previousPinch = None, gesture_vx = Num 0, gesture_vy = Num 0,
      x0 = Num 10, y0 = Num 10, gesture_dx = Num 3, gesture_dy = Num 1, doubleTapUp = False\<rparr>"

definition zooming :: State where
  "zooming =
     snd (run hookedProps
       [Layout (Num 300) (Num 400), UpdateTransform identityUpdate, ResponderRelease tap])"

text \<open>
  Resistance enabled, and the content shifted by \<open>(20, -10)\<close>: its left edge is past the
  viewport's left edge, its top edge is not past the viewport's top edge.
\<close>

definition resistProps :: Props where
  "resistProps = defaultProps\<lparr>enableResistance := True\<rparr>"

definition overscrolled :: State where
  "overscrolled =
     snd (run resistProps
       [Layout (Num 300) (Num 400),
        UpdateTransform \<lparr>new_scale = Some (Num 1), new_translateX = Some (Num 20),
                         new_translateY = Some (Num (- 10))\<rparr>])"

text \<open>The content moved two viewport widths to the left.\<close>

definition panned :: State where
  "panned =
     snd (run defaultProps
       [Layout (Num 300) (Num 400),
        UpdateTransform \<lparr>new_scale = Some (Num 1), new_translateX = Some (Num (- 600)),
                         new_translateY = Some (Num 0)\<rparr>])"

text \<open>
  The order in which the specification lists the steps of a pan: the lock onto one axis
  first, the limits or the resistance after it. It is compared with \<open>onResponderMove\<close>
  below.
\<close>

definition specPanDelta :: "Props \<Rightarrow> State \<Rightarrow> number \<Rightarrow> number \<Rightarrow> number \<times> number" where
  "specPanDelta props st dx dy = (let (dx, dy) = axisLock dx dy in limitedDelta props st dx dy)"

text \<open>The state of a component without an overlay whose drawing scale is still zero.\<close>

definition noOverlay :: "State \<Rightarrow> bool" where
  "noOverlay st = (\<not> svgRect_holder st \<and> svgDrawingScale st = Num 0)"

section \<open>Auxiliary facts\<close>

lemmas rect_defs = new_Rect_def new_Transform_def Rect_width_def Rect_height_def Rect_centerX_def
  Rect_centerY_def Rect_center_def Rect_copy_def Rect_equals_def Rect_offset_def transformedRect_def
  getTransform_def fitCenterRect_def alignedRect_def availableTranslateSpace_def

lemmas geometry_defs = viewPortRect_def svgRect_def currentTransform_def currentSvgTransform_def
  hasAspectRatio_def contentRect_def transformedContentRect_def

lemma minus_num [simp]: "Num a - Num b = Num (a - b)"
  by (simp add: minus_number_def)

lemma Math_max_Num [simp]: "Math_max (Num a) (Num b) = Num (max a b)"
  by (simp add: Math_max_def max_def)

lemma Math_min_Num [simp]: "Math_min (Num a) (Num b) = Num (min a b)"
  by (simp add: Math_min_def min_def)

lemma Math_max_lower: "Math_max (Num 0) x \<noteq> NaN \<Longrightarrow> Num 0 \<le> Math_max (Num 0) x"
  by (cases x) (simp_all add: Math_max_def)

lemma Math_min_upper: "Math_min (Num 1) x \<noteq> NaN \<Longrightarrow> Math_min (Num 1) x \<le> Num 1"
  by (cases x) (simp_all add: Math_min_def)

lemma div_zero_not_finite: "\<not> finite_number (x / Num 0)"
  by (cases x) (simp_all add: finite_number_def)

text \<open>The overlay's fields do not enter the content rectangles.\<close>

lemma frame_content [simp]:
  "contentRect props (st\<lparr>svgScale := a, svgTranslateX := b, svgTranslateY := c, svgDrawingScale := d\<rparr>)
     = contentRect props st"
  "transformedContentRect props
     (st\<lparr>svgScale := a, svgTranslateX := b, svgTranslateY := c, svgDrawingScale := d\<rparr>)
     = transformedContentRect props st"
  by (simp_all add: geometry_defs)

text \<open>Neither does the flag \<open>isAnimating\<close>.\<close>

lemma frame_isAnimating [simp]:
  "transformedContentRect props (st\<lparr>isAnimating := b\<rparr>) = transformedContentRect props st"
  "contentRect props (st\<lparr>isAnimating := b\<rparr>) = contentRect props st"
  "viewPortRect (st\<lparr>isAnimating := b\<rparr>) = viewPortRect st"
  "doubleTapScaleBy props (st\<lparr>isAnimating := b\<rparr>) = doubleTapScaleBy props st"
  by (simp_all add: geometry_defs doubleTapScaleBy_def)

lemma doubleTapTarget_isAnimating [simp]:
  "doubleTapTarget props (st\<lparr>isAnimating := b\<rparr>) px py = doubleTapTarget props st px py"
  by (simp add: doubleTapTarget_def)

subsection \<open>The concrete states, evaluated\<close>

lemma laidOut_default:
  "laidOut defaultProps =
     (constructor defaultProps)\<lparr>scale := Num 1, translateX := Num 0, width := Num 300, height := Num 400\<rparr>"
  by (simp add: laidOut_def run_def identityUpdate_def onLayout_def updateTransform_def
      updateSvgTransform_def svgRect_def constructor_def defaultProps_def setState_transform_def
      strict_eq_def truthy_def)

lemma laidOut_overlay:
  "laidOut overlayProps =
     (constructor overlayProps)\<lparr>scale := Num 1, translateX := Num 0, width := Num 300, height := Num 400,
        svgScale := Num 0.15, svgTranslateY := Num (- (500 / 3)), svgDrawingScale := Num 0.15\<rparr>"
  by (simp add: laidOut_def run_def identityUpdate_def onLayout_def updateTransform_def
      updateSvgTransform_def svgRect_def constructor_def defaultProps_def overlayProps_def
      setState_transform_def strict_eq_def truthy_def geometry_defs rect_defs Let_def)

lemma zooming_timing: "animator_timing zooming = Some (Num 200)"
  by (simp add: zooming_def run_def identityUpdate_def onLayout_def updateTransform_def
      updateSvgTransform_def svgRect_def constructor_def defaultProps_def hookedProps_def
      setState_transform_def strict_eq_def truthy_def onResponderRelease_def hookHandled_def tap_def
      performDoubleTapUp_def doubleTapTarget_def doubleTapScaleBy_def animate_def geometry_defs
      rect_defs Let_def)

lemma overscrolled_eq:
  "overscrolled =
     (constructor resistProps)\<lparr>scale := Num 1, translateX := Num 20, translateY := Num (- 10),
        width := Num 300, height := Num 400\<rparr>"
  by (simp add: overscrolled_def run_def onLayout_def updateTransform_def updateSvgTransform_def
      svgRect_def constructor_def defaultProps_def resistProps_def setState_transform_def
      strict_eq_def truthy_def)

lemma overscrolled_space:
  "availableTranslateSpace (transformedContentRect resistProps overscrolled) (viewPortRect overscrolled)
     = new_Rect (Num (- 20)) (Num 10) (Num 20) (Num (- 10))"
  unfolding overscrolled_eq
  by (simp add: geometry_defs rect_defs Let_def constructor_def resistProps_def defaultProps_def)

lemma resistProps_fields:
  "enableResistance resistProps" "\<not> enableLimits resistProps" "enableTranslate resistProps"
  "onTransformGestureMove resistProps = None" "svgWidth resistProps = None"
  by (simp_all add: resistProps_def defaultProps_def)

lemma overscrolled_fields:
  "scale overscrolled = Num 1" "translateX overscrolled = Num 20"
  "translateY overscrolled = Num (- 10)" "\<not> svgRect_holder overscrolled"
  "cancelAnimation overscrolled = overscrolled"
  unfolding overscrolled_eq
  by (simp_all add: constructor_def resistProps_fields cancelAnimation_def)

lemma overscrolled_limited:
  "limitedDelta resistProps overscrolled (Num 3) (Num 1) = (Num 1, Num 1)"
  "limitedDelta resistProps overscrolled (Num 3) (Num 0) = (Num 1, Num 0)"
  by (simp_all add: limitedDelta_def applyResistance_def overscrolled_space resistProps_fields
      new_Rect_def Let_def)

lemma drag_delta: "moveX drag - previousMoveX drag = Num 3" "moveY drag - previousMoveY drag = Num 1"
  by (simp_all add: drag_def)

lemma panned_eq:
  "panned =
     (constructor defaultProps)\<lparr>scale := Num 1, translateX := Num (- 600), width := Num 300,
        height := Num 400\<rparr>"
  by (simp add: panned_def run_def onLayout_def updateTransform_def updateSvgTransform_def
      svgRect_def constructor_def defaultProps_def setState_transform_def strict_eq_def truthy_def)

lemma panned_clip: "clipRectCoordinates defaultProps panned = new_Rect (Num 2) (Num 0) (Num 1) (Num 1)"
  unfolding panned_eq
  by (simp add: clipRectCoordinates_def geometry_defs rect_defs Let_def constructor_def defaultProps_def)

lemma initial_clip:
  "clipRectCoordinates defaultProps (constructor defaultProps) = new_Rect NaN NaN NaN NaN"
  by (simp add: clipRectCoordinates_def geometry_defs rect_defs Let_def constructor_def defaultProps_def
      Math_max_def Math_min_def minus_number_def)

lemma laidOut_overlay_fields:
  "scale (laidOut overlayProps) = Num 1" "translateX (laidOut overlayProps) = Num 0"
  "translateY (laidOut overlayProps) = Num 0" "width (laidOut overlayProps) = Num 300"
  "height (laidOut overlayProps) = Num 400"
  unfolding laidOut_overlay by (simp_all add: constructor_def)

lemma overlayProps_fields:
  "maxScale overlayProps = Num 3" "\<not> hasAspectRatio overlayProps"
  by (simp_all add: overlayProps_def defaultProps_def hasAspectRatio_def)

lemma laidOut_overlay_rects:
  "transformedContentRect overlayProps (laidOut overlayProps) = new_Rect (Num 0) (Num 0) (Num 300) (Num 400)"
  "viewPortRect (laidOut overlayProps) = new_Rect (Num 0) (Num 0) (Num 300) (Num 400)"
  by (simp_all add: transformedContentRect_def overlayProps_fields viewPortRect_def currentTransform_def
      laidOut_overlay_fields rect_defs Let_def)

lemma zoomedIn_eq:
  "zoomedIn =
     (constructor overlayProps)\<lparr>scale := Num 3, translateX := Num 0, width := Num 300, height := Num 400,
        svgScale := Num 0.15, svgTranslateY := Num (- (500 / 3)), svgDrawingScale := Num 0.45\<rparr>"
  by (simp add: zoomedIn_def run_def onLayout_def updateTransform_def
      updateSvgTransform_def svgRect_def constructor_def defaultProps_def overlayProps_def
      setState_transform_def strict_eq_def truthy_def geometry_defs rect_defs Let_def)

lemma zoomedIn_fields:
  "scale zoomedIn = Num 3" "translateX zoomedIn = Num 0"
  "translateY zoomedIn = Num 0" "width zoomedIn = Num 300" "height zoomedIn = Num 400"
  unfolding zoomedIn_eq by (simp_all add: constructor_def)

subsection \<open>Without an overlay the drawing scale stays zero\<close>

lemma noOverlay_updateTransform: "noOverlay st \<Longrightarrow> noOverlay (updateTransform props st t)"
  by (simp add: noOverlay_def updateTransform_def updateSvgTransform_def svgRect_def
      setState_transform_def)

lemma noOverlay_animate: "noOverlay st \<Longrightarrow> noOverlay (animate props st r d)"
  by (simp add: noOverlay_def animate_def Let_def)

lemma noOverlay_animateBounce: "noOverlay st \<Longrightarrow> noOverlay (animateBounce props st)"
  by (simp add: animateBounce_def Let_def noOverlay_animate)

lemma noOverlay_cancelAnimation: "noOverlay st \<Longrightarrow> noOverlay (cancelAnimation st)"
  by (simp add: noOverlay_def cancelAnimation_def)

lemma noOverlay_isAnimating: "noOverlay st \<Longrightarrow> noOverlay (st\<lparr>isAnimating := b\<rparr>)"
  by (simp add: noOverlay_def)

lemma noOverlay_onLayout: "noOverlay st \<Longrightarrow> noOverlay (onLayout props st w h)"
  by (simp add: noOverlay_def onLayout_def updateSvgTransform_def svgRect_def)

lemma noOverlay_measured: "noOverlay st \<Longrightarrow> noOverlay (measured st px py)"
  by (simp add: noOverlay_def measured_def split: option.splits)

lemma noOverlay_onResponderGrant: "noOverlay st \<Longrightarrow> noOverlay (onResponderGrant st)"
  by (simp add: noOverlay_def onResponderGrant_def)

lemma noOverlay_onResponderMove: "noOverlay st \<Longrightarrow> noOverlay (onResponderMove props st g)"
  by (simp add: onResponderMove_def Let_def case_prod_beta noOverlay_cancelAnimation
      noOverlay_updateTransform)

lemma noOverlay_performFling: "noOverlay st \<Longrightarrow> noOverlay (performFling props st vx vy)"
  by (simp add: performFling_def Let_def case_prod_beta noOverlay_def split del: if_split)

lemma noOverlay_performDoubleTapUp: "noOverlay st \<Longrightarrow> noOverlay (performDoubleTapUp props st x y)"
  by (simp add: performDoubleTapUp_def Let_def noOverlay_animate noOverlay_isAnimating)

lemma noOverlay_centerAtPoint: "noOverlay st \<Longrightarrow> noOverlay (centerAtPoint props st x y s d)"
  by (simp add: centerAtPoint_def Let_def noOverlay_animate noOverlay_isAnimating)

lemma noOverlay_onResponderRelease: "noOverlay st \<Longrightarrow> noOverlay (onResponderRelease props st g)"
  by (simp add: onResponderRelease_def Let_def case_prod_beta noOverlay_animateBounce
      noOverlay_performDoubleTapUp noOverlay_performFling)

lemma noOverlay_animator_tick: "noOverlay st \<Longrightarrow> noOverlay (animator_tick props st progress)"
  by (simp add: animator_tick_def Let_def noOverlay_updateTransform split: option.splits prod.splits)

lemma noOverlay_animator_end: "noOverlay st \<Longrightarrow> noOverlay (animator_end st)"
  by (simp add: noOverlay_def animator_end_def)

lemma noOverlay_scroller_tick: "noOverlay st \<Longrightarrow> noOverlay (scroller_tick props st dx dy f)"
  by (simp add: scroller_tick_def noOverlay_animateBounce noOverlay_updateTransform)

lemma noOverlay_componentWillReceiveProps:
  "noOverlay st \<Longrightarrow> noOverlay (componentWillReceiveProps props nextProps st)"
  by (simp add: componentWillReceiveProps_def noOverlay_updateTransform)

lemma noOverlay_handle: "noOverlay st \<Longrightarrow> noOverlay (snd (handle (props, st) e))"
  by (cases e)
    (simp_all add: noOverlay_onLayout noOverlay_measured noOverlay_onResponderGrant
      noOverlay_onResponderMove noOverlay_onResponderRelease noOverlay_animator_tick
      noOverlay_animator_end noOverlay_scroller_tick noOverlay_componentWillReceiveProps
      noOverlay_updateTransform forceUpdateTransform_def noOverlay_centerAtPoint
      noOverlay_cancelAnimation)

lemma noOverlay_foldl: "noOverlay (snd c) \<Longrightarrow> noOverlay (snd (foldl handle c events))"
proof (induction events arbitrary: c)
  case Nil
  then show ?case by simp
next
  case (Cons e events)
  obtain props st where c: "c = (props, st)" by (cases c)
  with Cons.prems have "noOverlay (snd (handle c e))"
    by (simp add: noOverlay_handle)
  then show ?case using Cons.IH by simp
qed

section \<open>Properties\<close>

subsection \<open>The overlay follows every update of the transform\<close>

text \<open>
  C1. After \<open>updateTransform\<close> (and \<open>forceUpdateTransform\<close>, which only calls it) on a
  component with an overlay, the state holds the new scale and translate, the overlay's
  transform is \<open>getTransform(svgRect, contentRect)\<close> and its drawing scale is the width of
  the transformed content rectangle over \<open>svgWidth\<close>, both computed from the state
  that already holds the new transform.
\<close>

theorem updateTransform_syncs_overlay:
  assumes "svgRect_holder st"
  shows "let st' = updateTransform props st transform;
             svg = new_Rect (Num 0) (Num 0) (toNumber (svgWidth props)) (toNumber (svgHeight props));
             t = getTransform svg (contentRect props st')
         in scale st' = (case new_scale transform of Some v \<Rightarrow> v | None \<Rightarrow> scale st) \<and>
            translateX st' = (case new_translateX transform of Some v \<Rightarrow> v | None \<Rightarrow> translateX st) \<and>
            translateY st' = (case new_translateY transform of Some v \<Rightarrow> v | None \<Rightarrow> translateY st) \<and>
            svgRect props st' = Some svg \<and>
            svgScale st' = T_scale t \<and>
            svgTranslateX st' = T_translateX t \<and>
            svgTranslateY st' = T_translateY t \<and>
            svgDrawingScale st' =
              Rect_width (transformedContentRect props st') / toNumber (svgWidth props) \<and>
            forceUpdateTransform props st transform = st'"
  using assms
  by (simp add: updateTransform_def forceUpdateTransform_def updateSvgTransform_def svgRect_def
      setState_transform_def Let_def)

theorem updateTransform_syncs_overlay_witness:
  "svgRect_holder (laidOut overlayProps) \<and>
   translateX (updateTransform overlayProps (laidOut overlayProps) shiftUpdate) = Num 20 \<and>
   svgDrawingScale (updateTransform overlayProps (laidOut overlayProps) shiftUpdate) =
     Rect_width (transformedContentRect overlayProps
        (updateTransform overlayProps (laidOut overlayProps) shiftUpdate)) / Num 2000 \<and>
   svgDrawingScale (updateTransform overlayProps (laidOut overlayProps) shiftUpdate) = Num 0.15"
proof -
  have e: "svgDrawingScale (updateTransform overlayProps (laidOut overlayProps) shiftUpdate) = Num 0.15"
    unfolding laidOut_overlay
    by (simp add: updateTransform_def updateSvgTransform_def svgRect_def setState_transform_def
        shiftUpdate_def constructor_def overlayProps_def defaultProps_def truthy_def
        geometry_defs rect_defs Let_def)
  have h: "svgRect_holder (laidOut overlayProps)"
    unfolding laidOut_overlay
    by (simp add: constructor_def overlayProps_def defaultProps_def truthy_def)
  have w: "toNumber (svgWidth overlayProps) = Num 2000"
    by (simp add: overlayProps_def)
  have x: "new_translateX shiftUpdate = Some (Num 20)"
    by (simp add: shiftUpdate_def)
  show ?thesis
    using h e updateTransform_syncs_overlay [OF h, of overlayProps shiftUpdate]
    by (simp add: Let_def w x)
qed

subsection \<open>The interception hooks\<close>

text \<open>
  A move that the hook handles while the zoom animation of a double tap is in flight
  stops that animation: \<open>onResponderMove\<close> calls \<open>cancelAnimation\<close> before it asks the
  hook.
\<close>

theorem hook_after_cancel_counterexample:
  "hookHandled (onTransformGestureMove hookedProps) (cancelAnimation zooming) drag \<and>
   animator_timing zooming = Some (Num 200) \<and>
   animator_timing (onResponderMove hookedProps zooming drag) = None \<and>
   onResponderMove hookedProps zooming drag \<noteq> zooming"
proof -
  have a: "hookHandled (onTransformGestureMove hookedProps) (cancelAnimation zooming) drag"
    by (simp add: hookHandled_def hookedProps_def)
  have b: "animator_timing (onResponderMove hookedProps zooming drag) = None"
    using a by (simp add: onResponderMove_def Let_def cancelAnimation_def split: prod.splits)
  have c: "onResponderMove hookedProps zooming drag \<noteq> zooming"
    using b zooming_timing by auto
  show ?thesis using a b c zooming_timing by simp
qed

text \<open>
  C2. A release that \<open>onTransformGestureReleased\<close> handles leaves the state as it was.
  A move that \<open>onTransformGestureMove\<close> handles leaves the state as \<open>cancelAnimation\<close>
  left it: the animation in flight is stopped, and nothing else changes (no update of the
  transform, no fling, no zoom). Both copies of \<open>onResponderMove\<close> do so.
\<close>

theorem handled_gesture_effect:
  "(hookHandled (onTransformGestureReleased props) st gestureState \<longrightarrow>
      onResponderRelease props st gestureState = st) \<and>
   (hookHandled (onTransformGestureMove props) (cancelAnimation st) gestureState \<longrightarrow>
      onResponderMove props st gestureState = cancelAnimation st \<and>
      onResponderMove props st gestureState = st\<lparr>animator_timing := None\<rparr> \<and>
      onResponderMove_old props st gestureState = cancelAnimation st)"
  by (simp add: onResponderRelease_def onResponderMove_def onResponderMove_old_def Let_def
      cancelAnimation_def split: prod.splits)

theorem handled_gesture_effect_witness:
  "hookHandled (onTransformGestureReleased hookedProps) zooming drag \<and>
   onResponderRelease hookedProps zooming drag = zooming \<and>
   hookHandled (onTransformGestureMove hookedProps) (cancelAnimation zooming) drag \<and>
   onResponderMove hookedProps zooming drag = zooming\<lparr>animator_timing := None\<rparr>"
proof -
  have a: "hookHandled (onTransformGestureReleased hookedProps) zooming drag"
    by (simp add: hookHandled_def hookedProps_def drag_def)
  have b: "hookHandled (onTransformGestureMove hookedProps) (cancelAnimation zooming) drag"
    by (simp add: hookHandled_def hookedProps_def)
  show ?thesis
    using a b handled_gesture_effect [of hookedProps zooming drag]
    by (simp add: cancelAnimation_def)
qed

subsection \<open>The double tap\<close>

text \<open>
  C3. \<open>performDoubleTapUp\<close> takes \<open>scaleBy = 1 / scale\<close> when the scale is above
  \<open>(1 + maxScale) / 2\<close> and \<open>scaleBy = maxScale / scale\<close> otherwise, and hands to
  \<open>animate\<close> the transformed content rectangle scaled by that factor about the pivot,
  moved to the centre of the viewport and aligned; unless that rectangle equals the
  current one, the animator then runs from the current rectangle to it. For a scale
  that is a number other than zero the scale times \<open>scaleBy\<close> is \<open>1\<close> in the first
  case and \<open>maxScale\<close> in the second, and (with the modelled rectangle functions, no
  aspect ratio and a viewport of non-zero width) so is the scale of the transform that
  fits the content rectangle into the target: with \<open>maxScale = 3\<close> a double tap at
  scale 1 targets scale 3 and one at scale 3 targets scale 1. A release that is a double
  tap, with scaling enabled and not handled by the hook, is such a call.
\<close>

theorem doubleTap_scaleBy:
  "doubleTapScaleBy props st =
     (if scale st > (Num 1 + maxScale props) / Num 2 then Num 1 / scale st
      else maxScale props / scale st) \<and>
   doubleTapTarget props st pivotX pivotY =
     alignedRect
       (transformedRect
          (transformedRect (transformedContentRect props st)
             (new_Transform
                (if scale st > (Num 1 + maxScale props) / Num 2 then Num 1 / scale st
                 else maxScale props / scale st)
                (Num 0) (Num 0) (Some (pivotX, pivotY))))
          (new_Transform (Num 1)
             (Rect_centerX (viewPortRect st) - pivotX)
             (Rect_centerY (viewPortRect st) - pivotY) None))
       (viewPortRect st) \<and>
   performDoubleTapUp props st pivotX pivotY =
     animate props (st\<lparr>isAnimating := True\<rparr>) (doubleTapTarget props st pivotX pivotY) None \<and>
   (\<not> Rect_equals (transformedContentRect props st) (doubleTapTarget props st pivotX pivotY) \<longrightarrow>
      animator_listener (performDoubleTapUp props st pivotX pivotY) =
        Some (transformedContentRect props st, doubleTapTarget props st pivotX pivotY) \<and>
      animator_timing (performDoubleTapUp props st pivotX pivotY) = Some (Num 200) \<and>
      isAnimating (performDoubleTapUp props st pivotX pivotY)) \<and>
   (scale st = Num c \<and> c \<noteq> 0 \<and> maxScale props = Num m \<longrightarrow>
      scale st * doubleTapScaleBy props st = (if c > (1 + m) / 2 then Num 1 else Num m)) \<and>
   (\<not> hasAspectRatio props \<and> scale st = Num c \<and> c \<noteq> 0 \<and> maxScale props = Num m \<and>
    translateX st = Num tx \<and> translateY st = Num ty \<and>
    width st = Num w \<and> w \<noteq> 0 \<and> height st = Num h \<and>
    pivotX = Num px \<and> pivotY = Num py \<longrightarrow>
      T_scale (getTransform (contentRect props st) (doubleTapTarget props st pivotX pivotY))
        = (if c > (1 + m) / 2 then Num 1 else Num m) \<and>
      (m = 3 \<and> c = 1 \<longrightarrow>
         T_scale (getTransform (contentRect props st) (doubleTapTarget props st pivotX pivotY)) = Num 3) \<and>
      (m = 3 \<and> c = 3 \<longrightarrow>
         T_scale (getTransform (contentRect props st) (doubleTapTarget props st pivotX pivotY)) = Num 1)) \<and>
   (\<not> hookHandled (onTransformGestureReleased props) st gestureState \<and>
    doubleTapUp gestureState \<and> enableScale props \<longrightarrow>
      onResponderRelease props st gestureState =
        (if truthy (gesture_dx gestureState) \<or> truthy (gesture_dy gestureState)
         then performDoubleTapUp props st
                (moveX gestureState - pageX st) (moveY gestureState - pageY st)
         else performDoubleTapUp props st
                (x0 gestureState - pageX st) (y0 gestureState - pageY st)))"
proof -
  have a: "doubleTapScaleBy props st =
     (if scale st > (Num 1 + maxScale props) / Num 2 then Num 1 / scale st
      else maxScale props / scale st)"
    by (simp add: doubleTapScaleBy_def Let_def)
  have b: "doubleTapTarget props st pivotX pivotY =
     alignedRect
       (transformedRect
          (transformedRect (transformedContentRect props st)
             (new_Transform
                (if scale st > (Num 1 + maxScale props) / Num 2 then Num 1 / scale st
                 else maxScale props / scale st)
                (Num 0) (Num 0) (Some (pivotX, pivotY))))
          (new_Transform (Num 1)
             (Rect_centerX (viewPortRect st) - pivotX)
             (Rect_centerY (viewPortRect st) - pivotY) None))
       (viewPortRect st)"
    by (simp add: doubleTapTarget_def doubleTapScaleBy_def Let_def)
  have p: "performDoubleTapUp props st pivotX pivotY =
     animate props (st\<lparr>isAnimating := True\<rparr>) (doubleTapTarget props st pivotX pivotY) None"
    by (simp add: performDoubleTapUp_def Let_def)
  have l: "animator_listener (performDoubleTapUp props st pivotX pivotY) =
        Some (transformedContentRect props st, doubleTapTarget props st pivotX pivotY) \<and>
      animator_timing (performDoubleTapUp props st pivotX pivotY) = Some (Num 200) \<and>
      isAnimating (performDoubleTapUp props st pivotX pivotY)"
    if "\<not> Rect_equals (transformedContentRect props st) (doubleTapTarget props st pivotX pivotY)"
    using that by (simp add: p animate_def Let_def)
  have q: "scale st * doubleTapScaleBy props st = (if c > (1 + m) / 2 then Num 1 else Num m)"
    if "scale st = Num c \<and> c \<noteq> 0 \<and> maxScale props = Num m"
    using that by (simp add: doubleTapScaleBy_def Let_def)
  have t: "T_scale (getTransform (contentRect props st) (doubleTapTarget props st pivotX pivotY))
        = (if c > (1 + m) / 2 then Num 1 else Num m)"
    if "\<not> hasAspectRatio props \<and> scale st = Num c \<and> c \<noteq> 0 \<and> maxScale props = Num m \<and>
    translateX st = Num tx \<and> translateY st = Num ty \<and>
    width st = Num w \<and> w \<noteq> 0 \<and> height st = Num h \<and>
    pivotX = Num px \<and> pivotY = Num py"
    using that
    by (simp add: doubleTapTarget_def doubleTapScaleBy_def Let_def rect_defs viewPortRect_def
        contentRect_def transformedContentRect_def currentTransform_def algebra_simps)
  have r: "onResponderRelease props st gestureState =
        (if truthy (gesture_dx gestureState) \<or> truthy (gesture_dy gestureState)
         then performDoubleTapUp props st
                (moveX gestureState - pageX st) (moveY gestureState - pageY st)
         else performDoubleTapUp props st
                (x0 gestureState - pageX st) (y0 gestureState - pageY st))"
    if "\<not> hookHandled (onTransformGestureReleased props) st gestureState \<and>
    doubleTapUp gestureState \<and> enableScale props"
    using that by (simp add: onResponderRelease_def Let_def)
  show ?thesis
    apply (intro conjI impI)
    using a b p l q t r by simp_all
qed


theorem doubleTap_scaleBy_witness:
  "maxScale overlayProps = Num 3 \<and> scale (laidOut overlayProps) = Num 1 \<and>
   doubleTapScaleBy overlayProps (laidOut overlayProps) = Num 3 \<and>
   doubleTapTarget overlayProps (laidOut overlayProps) (Num 150) (Num 200) =
     new_Rect (Num (- 300)) (Num (- 400)) (Num 600) (Num 800) \<and>
   animator_listener (performDoubleTapUp overlayProps (laidOut overlayProps) (Num 150) (Num 200)) =
     Some (new_Rect (Num 0) (Num 0) (Num 300) (Num 400),
           new_Rect (Num (- 300)) (Num (- 400)) (Num 600) (Num 800)) \<and>
   T_scale (getTransform (contentRect overlayProps (laidOut overlayProps))
      (doubleTapTarget overlayProps (laidOut overlayProps) (Num 150) (Num 200))) = Num 3 \<and>
   scale zoomedIn = Num 3 \<and>
   doubleTapScaleBy overlayProps zoomedIn = Num (1 / 3) \<and>
   T_scale (getTransform (contentRect overlayProps zoomedIn)
      (doubleTapTarget overlayProps zoomedIn (Num 150) (Num 200))) = Num 1"
proof -
  have g: "doubleTapTarget overlayProps (laidOut overlayProps) (Num 150) (Num 200) =
     new_Rect (Num (- 300)) (Num (- 400)) (Num 600) (Num 800)"
    by (simp add: doubleTapTarget_def doubleTapScaleBy_def laidOut_overlay_rects laidOut_overlay_fields
        overlayProps_fields rect_defs Let_def)
  have n: "\<not> Rect_equals (transformedContentRect overlayProps (laidOut overlayProps))
     (doubleTapTarget overlayProps (laidOut overlayProps) (Num 150) (Num 200))"
    by (simp add: g laidOut_overlay_rects Rect_equals_def new_Rect_def strict_eq_def)
  note i1 = doubleTap_scaleBy [where props = overlayProps and st = "laidOut overlayProps"
        and pivotX = "Num 150" and pivotY = "Num 200" and c = 1 and m = 3 and tx = 0 and ty = 0
        and w = 300 and h = 400 and px = 150 and py = 200 and gestureState = tap]
  note i3 = doubleTap_scaleBy [where props = overlayProps and st = zoomedIn
        and pivotX = "Num 150" and pivotY = "Num 200" and c = 3 and m = 3 and tx = 0 and ty = 0
        and w = 300 and h = 400 and px = 150 and py = 200 and gestureState = tap]
  have l: "animator_listener (performDoubleTapUp overlayProps (laidOut overlayProps) (Num 150) (Num 200)) =
     Some (transformedContentRect overlayProps (laidOut overlayProps),
           doubleTapTarget overlayProps (laidOut overlayProps) (Num 150) (Num 200))"
    using i1 n by blast
  have k1: "doubleTapScaleBy overlayProps (laidOut overlayProps) = Num 3"
    using i1 by (elim conjE) (simp add: laidOut_overlay_fields overlayProps_fields)
  have k3: "doubleTapScaleBy overlayProps zoomedIn = Num (1 / 3)"
    using i3 by (elim conjE) (simp add: zoomedIn_fields overlayProps_fields)
  have t1: "T_scale (getTransform (contentRect overlayProps (laidOut overlayProps))
      (doubleTapTarget overlayProps (laidOut overlayProps) (Num 150) (Num 200))) = Num 3"
    using i1 by (elim conjE) (simp add: laidOut_overlay_fields overlayProps_fields)
  have t3: "T_scale (getTransform (contentRect overlayProps zoomedIn)
      (doubleTapTarget overlayProps zoomedIn (Num 150) (Num 200))) = Num 1"
    using i3 by (elim conjE) (simp add: zoomedIn_fields overlayProps_fields)
  show ?thesis
    using l k1 k3 t1 t3
    by (simp add: g laidOut_overlay_rects laidOut_overlay_fields overlayProps_fields zoomedIn_fields)
qed


subsection \<open>The delta of a pan\<close>

text \<open>
  With resistance enabled and only the left edge past the viewport, the drag by
  \<open>(3, 1)\<close> moves the content by \<open>(1, 1)\<close>: the resistance turns the delta into
  \<open>(1, 1)\<close>, which the lock leaves alone. Locking first would give \<open>(3, 0)\<close> and then
  \<open>(1, 0)\<close>.
\<close>

theorem pan_order_counterexample:
  "translateY (onResponderMove resistProps overscrolled drag) = Num (- 9) \<and>
   translateY overscrolled +
     snd (specPanDelta resistProps overscrolled
            (moveX drag - previousMoveX drag) (moveY drag - previousMoveY drag)) / scale overscrolled
     = Num (- 10)"
proof -
  have a: "translateY (onResponderMove resistProps overscrolled drag) = Num (- 9)"
    by (simp add: onResponderMove_def Let_def drag_def overscrolled_limited hookHandled_def
        pinching_def axisLock_def overscrolled_fields resistProps_fields updateTransform_def
        updateSvgTransform_def svgRect_def setState_transform_def)
  have b: "specPanDelta resistProps overscrolled (Num 3) (Num 1) = (Num 1, Num 0)"
    by (simp add: specPanDelta_def axisLock_def overscrolled_limited)
  show ?thesis using a b by (simp add: drag_delta overscrolled_fields)
qed

text \<open>
  C4. For a move without a pinch that the hook does not handle, the raw delta goes
  through the limits (when enabled) or else the resistance (when enabled) first, is set
  to zero when translating is disabled, and only then is locked onto one axis (\<open>dy\<close>
  becomes 0 if \<open>|dx| > 2|dy|\<close>, else \<open>dx\<close> becomes 0 if \<open>|dy| > 2|dx|\<close>); the result,
  divided by the scale, is added to the translate. Both copies of \<open>onResponderMove\<close>
  agree on such a move.
\<close>

theorem pan_delta_order:
  assumes "\<not> hookHandled (onTransformGestureMove props) (cancelAnimation st0) gestureState"
    and "\<not> pinching props gestureState"
  shows "let st = cancelAnimation st0;
             limited = limitedDelta props st (moveX gestureState - previousMoveX gestureState)
                         (moveY gestureState - previousMoveY gestureState);
             gated = (if \<not> enableTranslate props then (Num 0, Num 0) else limited);
             locked = axisLock (fst gated) (snd gated)
         in onResponderMove props st0 gestureState =
              updateTransform props st
                \<lparr>new_scale = None,
                 new_translateX = Some (translateX st + fst locked / scale st),
                 new_translateY = Some (translateY st + snd locked / scale st)\<rparr> \<and>
            onResponderMove_old props st0 gestureState = onResponderMove props st0 gestureState"
  using assms
  by (cases "enableTranslate props")
    (simp_all add: onResponderMove_def onResponderMove_old_def Let_def case_prod_beta)

theorem pan_delta_order_witness:
  "\<not> hookHandled (onTransformGestureMove resistProps) (cancelAnimation overscrolled) drag \<and>
   \<not> pinching resistProps drag \<and>
   limitedDelta resistProps overscrolled (Num 3) (Num 1) = (Num 1, Num 1) \<and>
   axisLock (Num 1) (Num 1) = (Num 1, Num 1) \<and>
   onResponderMove resistProps overscrolled drag =
     updateTransform resistProps overscrolled
       \<lparr>new_scale = None, new_translateX = Some (Num 21), new_translateY = Some (Num (- 9))\<rparr>"
proof -
  have h: "\<not> hookHandled (onTransformGestureMove resistProps) (cancelAnimation overscrolled) drag"
    by (simp add: hookHandled_def resistProps_fields)
  have p: "\<not> pinching resistProps drag"
    by (simp add: pinching_def drag_def)
  have k: "axisLock (Num 1) (Num 1) = (Num 1, Num 1)"
    by (simp add: axisLock_def)
  show ?thesis
    using h p pan_delta_order [OF h p]
    by (simp add: Let_def overscrolled_fields overscrolled_limited k resistProps_fields drag_delta)
qed

subsection \<open>Resistance\<close>

text \<open>
  C5. \<open>applyResistance\<close> divides \<open>dx\<close> by 3 exactly when the available space on the
  edge it moves towards is negative (the left one for \<open>dx > 0\<close>, the right one for
  \<open>dx < 0\<close>), and \<open>dy\<close> likewise with the top and the bottom edge; otherwise the
  component of the delta is returned as it came.
\<close>

theorem applyResistance_thirds:
  "(let space = availableTranslateSpace (transformedContentRect props st) (viewPortRect st)
    in fst (applyResistance props st dx dy) =
         (if (dx > Num 0 \<and> left space < Num 0) \<or> (dx < Num 0 \<and> right space < Num 0)
          then dx / Num 3 else dx) \<and>
       snd (applyResistance props st dx dy) =
         (if (dy > Num 0 \<and> top_edge space < Num 0) \<or> (dy < Num 0 \<and> bottom space < Num 0)
          then dy / Num 3 else dy))"
  by (simp add: applyResistance_def Let_def)

theorem applyResistance_thirds_witness:
  "applyResistance resistProps overscrolled (Num 3) (Num 1) = (Num 1, Num 1)"
  using applyResistance_thirds [of resistProps overscrolled "Num 3" "Num 1"]
  by (simp add: Let_def overscrolled_space new_Rect_def prod_eq_iff)

subsection \<open>Scalars between the drawing and the screen\<close>

text \<open>
  C6. \<open>drawingScalarToScreenScalar(s)\<close> is \<open>s\<close> times the larger of the width and the
  height of the transformed content rectangle, and \<open>screenScalarToDrawingScalar(s)\<close> is
  \<open>s\<close> over the drawing scale. When the drawing scale is the width of that rectangle
  over \<open>svgWidth\<close>, the second after the first gives
  \<open>s * max(width, height) * svgWidth / width\<close>, which is not \<open>s\<close> in general: for the
  viewport of 300 by 400 under the overlay of width 2000 it turns 1 into 8000/3.
\<close>

theorem scalar_conversions:
  "drawingScalarToScreenScalar props st s =
     s * Math_max (Rect_width (transformedContentRect props st))
                  (Rect_height (transformedContentRect props st)) \<and>
   screenScalarToDrawingScalar st s = s / svgDrawingScale st \<and>
   (svgDrawingScale st = Rect_width (transformedContentRect props st) / toNumber (svgWidth props) \<and>
    s = Num a \<and> svgWidth props = Some (Num v) \<and> v \<noteq> 0 \<and>
    Rect_width (transformedContentRect props st) = Num w \<and> w \<noteq> 0 \<and>
    Rect_height (transformedContentRect props st) = Num h \<longrightarrow>
      screenScalarToDrawingScalar st (drawingScalarToScreenScalar props st s) =
        s * Math_max (Rect_width (transformedContentRect props st))
                     (Rect_height (transformedContentRect props st))
          * toNumber (svgWidth props) / Rect_width (transformedContentRect props st) \<and>
      screenScalarToDrawingScalar st (drawingScalarToScreenScalar props st s) =
        Num (a * max w h * v / w)) \<and>
   screenScalarToDrawingScalar (laidOut overlayProps)
     (drawingScalarToScreenScalar overlayProps (laidOut overlayProps) (Num 1)) \<noteq> Num 1"
proof -
  have a: "drawingScalarToScreenScalar props st s =
     s * Math_max (Rect_width (transformedContentRect props st))
                  (Rect_height (transformedContentRect props st))"
    by (simp add: drawingScalarToScreenScalar_def Let_def)
  have b: "screenScalarToDrawingScalar st s = s / svgDrawingScale st"
    by (simp add: screenScalarToDrawingScalar_def)
  have c: "screenScalarToDrawingScalar st (drawingScalarToScreenScalar props st s) =
        s * Math_max (Rect_width (transformedContentRect props st))
                     (Rect_height (transformedContentRect props st))
          * toNumber (svgWidth props) / Rect_width (transformedContentRect props st) \<and>
      screenScalarToDrawingScalar st (drawingScalarToScreenScalar props st s) =
        Num (a * max w h * v / w)"
    if "svgDrawingScale st = Rect_width (transformedContentRect props st) / toNumber (svgWidth props)"
      "s = Num a" "svgWidth props = Some (Num v)" "v \<noteq> 0"
      "Rect_width (transformedContentRect props st) = Num w" "w \<noteq> 0"
      "Rect_height (transformedContentRect props st) = Num h"
    using that
    by (simp add: drawingScalarToScreenScalar_def screenScalarToDrawingScalar_def Let_def)
  have d: "screenScalarToDrawingScalar (laidOut overlayProps)
     (drawingScalarToScreenScalar overlayProps (laidOut overlayProps) (Num 1)) \<noteq> Num 1"
    unfolding laidOut_overlay
    by (simp add: drawingScalarToScreenScalar_def screenScalarToDrawingScalar_def Let_def
        geometry_defs rect_defs constructor_def overlayProps_def defaultProps_def)
  show ?thesis using a b c d by blast
qed

theorem scalar_conversions_witness:
  "svgDrawingScale (laidOut overlayProps) =
     Rect_width (transformedContentRect overlayProps (laidOut overlayProps)) /
       toNumber (svgWidth overlayProps) \<and>
   svgWidth overlayProps = Some (Num 2000) \<and>
   Rect_width (transformedContentRect overlayProps (laidOut overlayProps)) = Num 300 \<and>
   Rect_height (transformedContentRect overlayProps (laidOut overlayProps)) = Num 400 \<and>
   screenScalarToDrawingScalar (laidOut overlayProps)
     (drawingScalarToScreenScalar overlayProps (laidOut overlayProps) (Num 1)) = Num (8000 / 3)"
proof -
  have v: "svgWidth overlayProps = Some (Num 2000)"
    by (simp add: overlayProps_def)
  have r: "Rect_width (transformedContentRect overlayProps (laidOut overlayProps)) = Num 300"
    "Rect_height (transformedContentRect overlayProps (laidOut overlayProps)) = Num 400"
    unfolding laidOut_overlay
    by (simp_all add: geometry_defs rect_defs Let_def constructor_def overlayProps_def defaultProps_def)
  have d: "svgDrawingScale (laidOut overlayProps) = Num 0.15"
    unfolding laidOut_overlay by simp
  show ?thesis
    using v r d scalar_conversions [of overlayProps "laidOut overlayProps" "Num 1" 1 2000 300 400]
    by (simp add: screenScalarToDrawingScalar_def)
qed

subsection \<open>Coordinates to the screen and back\<close>

text \<open>
  C7. \<open>coordinateToScreenPoint\<close> followed by \<open>screenPointToCoordinate\<close> is not the
  identity. Without an overlay the drawing scale is zero and every coordinate goes to
  the corner of the transformed content rectangle, so the centre \<open>(0.5, 0.5)\<close> of the
  image comes back as \<open>(0, 0)\<close>. With the overlay of 2000 by 3000 over the viewport of
  300 by 400 the centre comes back as \<open>(0.5, 0.5625)\<close>: the way to the screen scales both
  axes by the drawing scale, the way back divides by the width and by the height.
\<close>

theorem coordinate_roundtrip_fails:
  "screenPointToCoordinate defaultProps (laidOut defaultProps)
     (coordinateToScreenPoint defaultProps (laidOut defaultProps) (Num 0.5, Num 0.5))
     = (Num 0, Num 0) \<and>
   screenPointToCoordinate overlayProps (laidOut overlayProps)
     (coordinateToScreenPoint overlayProps (laidOut overlayProps) (Num 0.5, Num 0.5))
     = (Num 0.5, Num 0.5625)"
proof -
  have a: "screenPointToCoordinate defaultProps (laidOut defaultProps)
     (coordinateToScreenPoint defaultProps (laidOut defaultProps) (Num 0.5, Num 0.5))
     = (Num 0, Num 0)"
    unfolding laidOut_default
    by (simp add: screenPointToCoordinate_def coordinateToScreenPoint_def
        drawingPointToScreenPoint_def coordinateToDrawingPoint_def constructor_def defaultProps_def
        geometry_defs rect_defs Let_def truthy_def)
  have b: "screenPointToCoordinate overlayProps (laidOut overlayProps)
     (coordinateToScreenPoint overlayProps (laidOut overlayProps) (Num 0.5, Num 0.5))
     = (Num 0.5, Num 0.5625)"
    unfolding laidOut_overlay
    by (simp add: screenPointToCoordinate_def coordinateToScreenPoint_def
        drawingPointToScreenPoint_def coordinateToDrawingPoint_def constructor_def defaultProps_def
        overlayProps_def geometry_defs rect_defs Let_def truthy_def)
  show ?thesis using a b by simp
qed

text \<open>
  The first class property named \<open>screenPointToCoordinate\<close>, which the second one
  replaces, does invert \<open>coordinateToScreenPoint\<close> wherever the overlay is configured
  and its drawing scale is not zero.
\<close>

lemma roundtrip_first_definition:
  assumes "svgRect_holder st"
    and "svgWidth props = Some (Num v)" and "v \<noteq> 0"
    and "svgHeight props = Some (Num u)" and "u \<noteq> 0"
    and "svgDrawingScale st = Num d" and "d \<noteq> 0"
    and "left (transformedContentRect props st) = Num l"
    and "top_edge (transformedContentRect props st) = Num t"
  shows "screenPointToCoordinate_first props st (coordinateToScreenPoint props st (Num x, Num y))
           = (Num x, Num y)"
  using assms
  by (simp add: screenPointToCoordinate_first_def coordinateToScreenPoint_def
      drawingPointToCoordinate_def screenPointToDrawingPoint_def drawingPointToScreenPoint_def
      coordinateToDrawingPoint_def Let_def)

text \<open>
  The second definition inverts it only where the overlay has the aspect ratio of the
  transformed content rectangle and the drawing scale is the width of that rectangle over
  \<open>svgWidth\<close>.
\<close>

lemma roundtrip_matching_aspect:
  assumes "svgRect_holder st"
    and "svgWidth props = Some (Num v)" and "v \<noteq> 0"
    and "svgHeight props = Some (Num u)" and "u \<noteq> 0"
    and "transformedContentRect props st = new_Rect (Num l) (Num t) (Num r) (Num b)"
    and "r - l \<noteq> 0" and "(b - t) * v = (r - l) * u"
    and "svgDrawingScale st = Rect_width (transformedContentRect props st) / toNumber (svgWidth props)"
  shows "screenPointToCoordinate props st (coordinateToScreenPoint props st (Num x, Num y))
           = (Num x, Num y)"
proof -
  have nz: "b - t \<noteq> 0"
    using assms(3,5,7,8) by (metis mult_eq_0_iff)
  have "y * u * ((r - l) / v) / (b - t) = y"
  proof -
    have e: "u * (r - l) = (b - t) * v" using assms(8) by (simp add: mult.commute)
    have "y * u * ((r - l) / v) = y * (u * (r - l)) / v" by simp
    also have "\<dots> = y * ((b - t) * v) / v" by (simp only: e)
    also have "\<dots> = y * (b - t)" using assms(3) by simp
    finally show ?thesis using nz by simp
  qed
  then show ?thesis
    using assms nz
    by (simp add: screenPointToCoordinate_def coordinateToScreenPoint_def
        drawingPointToScreenPoint_def coordinateToDrawingPoint_def Let_def
        Rect_width_def Rect_height_def new_Rect_def)
qed

subsection \<open>The clip rectangle\<close>

text \<open>
  With the content moved two viewport widths to the left the clip rectangle's left edge
  is 2; before the first layout all four edges are \<open>NaN\<close>.
\<close>

theorem clip_edges_counterexample:
  "left (clipRectCoordinates defaultProps panned) = Num 2 \<and>
   \<not> left (clipRectCoordinates defaultProps panned) \<le> Num 1 \<and>
   left (clipRectCoordinates defaultProps (constructor defaultProps)) = NaN \<and>
   \<not> Num 0 \<le> left (clipRectCoordinates defaultProps (constructor defaultProps))"
  by (simp add: panned_clip initial_clip new_Rect_def)

text \<open>
  C8. Every edge of \<open>clipRectCoordinates()\<close> that is a number is clamped on one side:
  \<open>0 \<le> left\<close>, \<open>0 \<le> top\<close>, \<open>right \<le> 1\<close> and \<open>bottom \<le> 1\<close>. The edges are numbers
  whenever the translate is finite and the viewport, the content rectangle and the
  transformed content rectangle have finite sizes, those of the two content rectangles
  not zero; then \<open>left = max(0, centerX - width/2)\<close> and so on, with nothing that keeps
  \<open>left\<close> and \<open>top\<close> below 1 or \<open>right\<close> and \<open>bottom\<close> above 0.
\<close>

theorem clip_edges_clamped:
  "(left (clipRectCoordinates props st) \<noteq> NaN \<longrightarrow> Num 0 \<le> left (clipRectCoordinates props st)) \<and>
   (top_edge (clipRectCoordinates props st) \<noteq> NaN \<longrightarrow> Num 0 \<le> top_edge (clipRectCoordinates props st)) \<and>
   (right (clipRectCoordinates props st) \<noteq> NaN \<longrightarrow> right (clipRectCoordinates props st) \<le> Num 1) \<and>
   (bottom (clipRectCoordinates props st) \<noteq> NaN \<longrightarrow> bottom (clipRectCoordinates props st) \<le> Num 1) \<and>
   (translateX st = Num tx \<and> translateY st = Num ty \<and>
    Rect_width (viewPortRect st) = Num vw \<and> Rect_height (viewPortRect st) = Num vh \<and>
    Rect_width (contentRect props st) = Num cw \<and> cw \<noteq> 0 \<and>
    Rect_height (contentRect props st) = Num ch \<and> ch \<noteq> 0 \<and>
    Rect_width (transformedContentRect props st) = Num tw \<and> tw \<noteq> 0 \<and>
    Rect_height (transformedContentRect props st) = Num th \<and> th \<noteq> 0 \<longrightarrow>
      left (clipRectCoordinates props st) = Num (max 0 (0.5 - tx / cw - vw / tw / 2)) \<and>
      top_edge (clipRectCoordinates props st) = Num (max 0 (0.5 - ty / ch - vh / th / 2)) \<and>
      right (clipRectCoordinates props st) = Num (min 1 (0.5 - tx / cw + vw / tw / 2)) \<and>
      bottom (clipRectCoordinates props st) = Num (min 1 (0.5 - ty / ch + vh / th / 2)))"
proof -
  have l: "left (clipRectCoordinates props st) \<noteq> NaN \<longrightarrow>
      Num 0 \<le> left (clipRectCoordinates props st)"
    by (simp add: clipRectCoordinates_def Let_def new_Rect_def Math_max_lower)
  have t: "top_edge (clipRectCoordinates props st) \<noteq> NaN \<longrightarrow>
      Num 0 \<le> top_edge (clipRectCoordinates props st)"
    by (simp add: clipRectCoordinates_def Let_def new_Rect_def Math_max_lower)
  have r: "right (clipRectCoordinates props st) \<noteq> NaN \<longrightarrow>
      right (clipRectCoordinates props st) \<le> Num 1"
    by (simp add: clipRectCoordinates_def Let_def new_Rect_def Math_min_upper)
  have b: "bottom (clipRectCoordinates props st) \<noteq> NaN \<longrightarrow>
      bottom (clipRectCoordinates props st) \<le> Num 1"
    by (simp add: clipRectCoordinates_def Let_def new_Rect_def Math_min_upper)
  have f: "left (clipRectCoordinates props st) = Num (max 0 (0.5 - tx / cw - vw / tw / 2)) \<and>
      top_edge (clipRectCoordinates props st) = Num (max 0 (0.5 - ty / ch - vh / th / 2)) \<and>
      right (clipRectCoordinates props st) = Num (min 1 (0.5 - tx / cw + vw / tw / 2)) \<and>
      bottom (clipRectCoordinates props st) = Num (min 1 (0.5 - ty / ch + vh / th / 2))"
    if "translateX st = Num tx" "translateY st = Num ty"
      "Rect_width (viewPortRect st) = Num vw" "Rect_height (viewPortRect st) = Num vh"
      "Rect_width (contentRect props st) = Num cw" "cw \<noteq> 0"
      "Rect_height (contentRect props st) = Num ch" "ch \<noteq> 0"
      "Rect_width (transformedContentRect props st) = Num tw" "tw \<noteq> 0"
      "Rect_height (transformedContentRect props st) = Num th" "th \<noteq> 0"
    using that
    by (simp add: clipRectCoordinates_def Let_def new_Rect_def currentTransform_def new_Transform_def)
  show ?thesis using l t r b f by blast
qed

theorem clip_edges_clamped_witness:
  "left (clipRectCoordinates defaultProps panned) \<noteq> NaN \<and>
   Num 0 \<le> left (clipRectCoordinates defaultProps panned) \<and>
   right (clipRectCoordinates defaultProps panned) \<noteq> NaN \<and>
   right (clipRectCoordinates defaultProps panned) \<le> Num 1 \<and>
   translateX panned = Num (- 600) \<and>
   Rect_width (contentRect defaultProps panned) = Num 300 \<and>
   Rect_width (transformedContentRect defaultProps panned) = Num 300 \<and>
   left (clipRectCoordinates defaultProps panned) = Num 2"
proof -
  have n: "left (clipRectCoordinates defaultProps panned) \<noteq> NaN"
    "right (clipRectCoordinates defaultProps panned) \<noteq> NaN"
    "top_edge (clipRectCoordinates defaultProps panned) \<noteq> NaN"
    "bottom (clipRectCoordinates defaultProps panned) \<noteq> NaN"
    by (simp_all add: panned_clip new_Rect_def)
  have s: "translateX panned = Num (- 600)" "translateY panned = Num 0"
    "Rect_width (viewPortRect panned) = Num 300" "Rect_height (viewPortRect panned) = Num 400"
    "Rect_width (contentRect defaultProps panned) = Num 300"
    "Rect_height (contentRect defaultProps panned) = Num 400"
    "Rect_width (transformedContentRect defaultProps panned) = Num 300"
    "Rect_height (transformedContentRect defaultProps panned) = Num 400"
    unfolding panned_eq
    by (simp_all add: geometry_defs rect_defs Let_def constructor_def defaultProps_def)
  show ?thesis
    using n s clip_edges_clamped [of defaultProps panned "- 600" 0 300 400 300 400 300 400]
    by simp
qed

subsection \<open>The initial transform\<close>

text \<open>
  C9. Right after construction the content transform is not the identity: the scale is
  the property \<open>initialScale\<close>, whose default is 10, \<open>translateX\<close> is
  \<open>375 / 2 / 5 = 37.5\<close> and \<open>translateY\<close> is 0.
\<close>

theorem constructor_transform:
  "scale (constructor props) = initialScale props \<and>
   initialScale defaultProps = Num 10 \<and>
   translateX (constructor props) = Num 375 / Num 2 / Num 5 \<and>
   translateX (constructor props) = Num 37.5 \<and>
   translateY (constructor props) = Num 0 \<and>
   currentTransform (constructor props) \<noteq> new_Transform (Num 1) (Num 0) (Num 0) None"
  by (simp add: constructor_def defaultProps_def currentTransform_def new_Transform_def)

subsection \<open>Division by the drawing scale\<close>

text \<open>
  C10. \<open>screenPointToDrawingPoint\<close> and \<open>screenScalarToDrawingScalar\<close> return
  quotients by \<open>state.svgDrawingScale\<close>, whatever its value: there is no guard. The
  constructor sets it to 0, and \<open>updateSvgTransform\<close> returns at once when
  \<open>this._svgRect\<close> is null. So when the component is built without both \<open>svgWidth\<close>
  and \<open>svgHeight\<close>, the drawing scale is 0 after every run of events, and wherever it
  is 0 (also right after construction with an overlay) both conversions divide by zero:
  for every argument the result is \<open>Infinity\<close>, \<open>-Infinity\<close> or \<open>NaN\<close>, by the sign
  of the dividend.
\<close>

theorem svgDrawingScale_division_by_zero:
  "svgDrawingScale (constructor props) = Num 0 \<and>
   (\<not> svgRect_holder st \<longrightarrow> updateSvgTransform props st = st) \<and>
   (\<not> (truthy_opt (svgWidth props) \<and> truthy_opt (svgHeight props)) \<longrightarrow>
      svgDrawingScale (snd (run props events)) = Num 0) \<and>
   screenScalarToDrawingScalar st screenScalar = screenScalar / svgDrawingScale st \<and>
   screenPointToDrawingPoint props st screenPoint =
     ((fst screenPoint - left (transformedContentRect props st)) / svgDrawingScale st,
      (snd screenPoint - top_edge (transformedContentRect props st)) / svgDrawingScale st) \<and>
   (svgDrawingScale st = Num 0 \<longrightarrow>
      screenScalarToDrawingScalar st screenScalar = screenScalar / Num 0 \<and>
      screenPointToDrawingPoint props st screenPoint =
        ((fst screenPoint - left (transformedContentRect props st)) / Num 0,
         (snd screenPoint - top_edge (transformedContentRect props st)) / Num 0) \<and>
      \<not> finite_number (screenScalarToDrawingScalar st screenScalar) \<and>
      \<not> finite_number (fst (screenPointToDrawingPoint props st screenPoint)) \<and>
      \<not> finite_number (snd (screenPointToDrawingPoint props st screenPoint)) \<and>
      (screenScalar = Num a \<longrightarrow>
         screenScalarToDrawingScalar st screenScalar =
           (if a = 0 then NaN else if 0 < a then PosInf else NegInf)) \<and>
      (fst screenPoint - left (transformedContentRect props st) = Num b \<longrightarrow>
         fst (screenPointToDrawingPoint props st screenPoint) =
           (if b = 0 then NaN else if 0 < b then PosInf else NegInf)) \<and>
      (snd screenPoint - top_edge (transformedContentRect props st) = Num c \<longrightarrow>
         snd (screenPointToDrawingPoint props st screenPoint) =
           (if c = 0 then NaN else if 0 < c then PosInf else NegInf)))"
proof -
  have a: "svgDrawingScale (constructor props) = Num 0"
    by (simp add: constructor_def)
  have b: "\<not> svgRect_holder st \<longrightarrow> updateSvgTransform props st = st"
    by (simp add: updateSvgTransform_def svgRect_def)
  have c: "svgDrawingScale (snd (run props events)) = Num 0"
    if "\<not> (truthy_opt (svgWidth props) \<and> truthy_opt (svgHeight props))"
  proof -
    from that have "noOverlay (snd (props, constructor props))"
      by (simp add: noOverlay_def constructor_def)
    then have "noOverlay (snd (run props events))"
      unfolding run_def by (rule noOverlay_foldl)
    then show ?thesis by (simp add: noOverlay_def)
  qed
  have s: "screenScalarToDrawingScalar st screenScalar = screenScalar / svgDrawingScale st"
    by (simp add: screenScalarToDrawingScalar_def)
  have p: "screenPointToDrawingPoint props st screenPoint =
     ((fst screenPoint - left (transformedContentRect props st)) / svgDrawingScale st,
      (snd screenPoint - top_edge (transformedContentRect props st)) / svgDrawingScale st)"
    by (simp add: screenPointToDrawingPoint_def Let_def)
  have d: "screenScalarToDrawingScalar st screenScalar = screenScalar / Num 0 \<and>
      screenPointToDrawingPoint props st screenPoint =
        ((fst screenPoint - left (transformedContentRect props st)) / Num 0,
         (snd screenPoint - top_edge (transformedContentRect props st)) / Num 0) \<and>
      \<not> finite_number (screenScalarToDrawingScalar st screenScalar) \<and>
      \<not> finite_number (fst (screenPointToDrawingPoint props st screenPoint)) \<and>
      \<not> finite_number (snd (screenPointToDrawingPoint props st screenPoint)) \<and>
      (screenScalar = Num a \<longrightarrow>
         screenScalarToDrawingScalar st screenScalar =
           (if a = 0 then NaN else if 0 < a then PosInf else NegInf)) \<and>
      (fst screenPoint - left (transformedContentRect props st) = Num b \<longrightarrow>
         fst (screenPointToDrawingPoint props st screenPoint) =
           (if b = 0 then NaN else if 0 < b then PosInf else NegInf)) \<and>
      (snd screenPoint - top_edge (transformedContentRect props st) = Num c \<longrightarrow>
         snd (screenPointToDrawingPoint props st screenPoint) =
           (if c = 0 then NaN else if 0 < c then PosInf else NegInf))"
    if "svgDrawingScale st = Num 0"
    using that
    by (simp add: screenScalarToDrawingScalar_def screenPointToDrawingPoint_def Let_def
        div_zero_not_finite)
  show ?thesis using a b c s p d by blast
qed

theorem svgDrawingScale_division_by_zero_witness:
  "\<not> (truthy_opt (svgWidth defaultProps) \<and> truthy_opt (svgHeight defaultProps)) \<and>
   \<not> svgRect_holder (laidOut defaultProps) \<and>
   svgDrawingScale (laidOut defaultProps) = Num 0 \<and>
   screenScalarToDrawingScalar (laidOut defaultProps) (Num 5) = PosInf \<and>
   screenPointToDrawingPoint defaultProps (laidOut defaultProps) (Num 150, Num 200) = (PosInf, PosInf) \<and>
   screenPointToDrawingPoint defaultProps (laidOut defaultProps) (Num 0, Num (- 1)) = (NaN, NegInf)"
proof -
  have p: "\<not> (truthy_opt (svgWidth defaultProps) \<and> truthy_opt (svgHeight defaultProps))"
    by (simp add: defaultProps_def)
  have h: "\<not> svgRect_holder (laidOut defaultProps)"
    unfolding laidOut_default by (simp add: constructor_def defaultProps_def)
  note i = svgDrawingScale_division_by_zero
      [where props = defaultProps and st = "laidOut defaultProps"
         and events = "[Layout (Num 300) (Num 400), UpdateTransform identityUpdate]"]
  have z: "svgDrawingScale (laidOut defaultProps) = Num 0"
    using p i [of "Num 5" "(Num 150, Num 200)" 5 150 200] by (simp add: laidOut_def)
  have r: "left (transformedContentRect defaultProps (laidOut defaultProps)) = Num 0"
    "top_edge (transformedContentRect defaultProps (laidOut defaultProps)) = Num 0"
    unfolding laidOut_default
    by (simp_all add: geometry_defs rect_defs Let_def constructor_def defaultProps_def)
  have s: "screenScalarToDrawingScalar (laidOut defaultProps) (Num 5) = PosInf"
    using z i [of "Num 5" "(Num 150, Num 200)" 5 150 200] by (elim conjE) simp
  have q: "screenPointToDrawingPoint defaultProps (laidOut defaultProps) (Num 150, Num 200) = (PosInf, PosInf)"
    using z r i [of "Num 5" "(Num 150, Num 200)" 5 150 200] by (elim conjE) (simp add: prod_eq_iff)
  have q': "screenPointToDrawingPoint defaultProps (laidOut defaultProps) (Num 0, Num (- 1)) = (NaN, NegInf)"
    using z r i [of "Num 5" "(Num 0, Num (- 1))" 5 0 "- 1"] by (elim conjE) (simp add: prod_eq_iff)
  show ?thesis using p h z s q q' by simp
qed

end
